theory Spec2Isabelle
  imports Main
begin

section \<open>Python values and dictionaries\<close>

text \<open>
  The payload's \<open>data\<close> is a Python dict with string keys and values of mixed type; it
  becomes JSON. Values are modelled by \<open>pyval\<close>. A dict keeps insertion order, so it is an
  association list. \<open>PCIDict\<close> is \<open>requests.structures.CaseInsensitiveDict\<close>: keys are
  looked up by their lower-case form and stored with the case of the last assignment.
  \<open>PObj\<close> stands for an object of any other class (a datetime, a date), named by a
  handle; it is neither iterable nor subscriptable. Numbers are integers.
\<close>

datatype pyval =
    PNone
  | PBool bool
  | PInt int
  | PStr string
  | PList "pyval list"
  | PDict "(string \<times> pyval) list"
  | PCIDict "(string \<times> pyval) list"
  | PObj nat

type_synonym 'v dict = "(string \<times> 'v) list"

datatype pyexc = KeyError | TypeError | AttributeError | IndexError | AssertionError | ValueError

definition dict_get :: "'v dict \<Rightarrow> string \<Rightarrow> 'v option" where
  "dict_get d k = map_of d k"

fun dict_set :: "'v dict \<Rightarrow> string \<Rightarrow> 'v \<Rightarrow> 'v dict" where
  "dict_set [] k v = [(k, v)]"
| "dict_set ((k', v') # d) k v = (if k' = k then (k, v) # d else (k', v') # dict_set d k v)"

definition dict_del :: "'v dict \<Rightarrow> string \<Rightarrow> 'v dict" where
  "dict_del d k = filter (\<lambda>kv. fst kv \<noteq> k) d"

text \<open>\<open>a.copy()\<close> followed by \<open>.update(b)\<close>: the keys of \<open>b\<close> are assigned in order.\<close>

fun dict_update :: "'v dict \<Rightarrow> 'v dict \<Rightarrow> 'v dict" where
  "dict_update a [] = a"
| "dict_update a ((k, v) # b) = dict_update (dict_set a k v) b"

text \<open>Lower-casing of ASCII letters, for the keys of a \<open>CaseInsensitiveDict\<close>.\<close>

definition lower_char :: "char \<Rightarrow> char" where
  "lower_char c = (let n = (of_char c :: nat) in if 65 \<le> n \<and> n \<le> 90 then char_of (n + 32) else c)"

definition lower :: "string \<Rightarrow> string" where
  "lower s = map lower_char s"

fun ci_set :: "'v dict \<Rightarrow> string \<Rightarrow> 'v \<Rightarrow> 'v dict" where
  "ci_set [] k v = [(k, v)]"
| "ci_set ((k', v') # d) k v =
     (if lower k' = lower k then (k, v) # d else (k', v') # ci_set d k v)"

definition ci_get :: "'v dict \<Rightarrow> string \<Rightarrow> 'v option" where
  "ci_get d k = map_of (map (\<lambda>kv. (lower (fst kv), snd kv)) d) (lower k)"

text \<open>Truth value of a Python object (\<open>if x:\<close>, \<open>not x\<close>).\<close>

fun truthy :: "pyval \<Rightarrow> bool" where
  "truthy PNone = False"
| "truthy (PBool b) = b"
| "truthy (PInt i) = (i \<noteq> 0)"
| "truthy (PStr s) = (s \<noteq> [])"
| "truthy (PList xs) = (xs \<noteq> [])"
| "truthy (PDict d) = (d \<noteq> [])"
| "truthy (PCIDict d) = (d \<noteq> [])"
| "truthy (PObj h) = True"

text \<open>Iteration (\<open>for x in v\<close>, \<open>zip(_, v)\<close>): a string yields its characters, a dict its keys.\<close>

fun py_iter :: "pyval \<Rightarrow> pyexc + pyval list" where
  "py_iter (PList xs) = Inr xs"
| "py_iter (PStr s) = Inr (map (\<lambda>c. PStr [c]) s)"
| "py_iter (PDict d) = Inr (map (\<lambda>kv. PStr (fst kv)) d)"
| "py_iter (PCIDict d) = Inr (map (\<lambda>kv. PStr (fst kv)) d)"
| "py_iter _ = Inl TypeError"

text \<open>\<open>v[k]\<close> for a string key \<open>k\<close>: KeyError on a dict without the key, TypeError on
  anything that is not a mapping.\<close>

fun py_getitem :: "pyval \<Rightarrow> string \<Rightarrow> pyexc + pyval" where
  "py_getitem (PDict d) k = (case dict_get d k of None \<Rightarrow> Inl KeyError | Some v \<Rightarrow> Inr v)"
| "py_getitem (PCIDict d) k = (case ci_get d k of None \<Rightarrow> Inl KeyError | Some v \<Rightarrow> Inr v)"
| "py_getitem _ k = Inl TypeError"

text \<open>\<open>v[i]\<close> for an integer index \<open>i \<ge> 0\<close>.\<close>

fun py_index :: "pyval \<Rightarrow> nat \<Rightarrow> pyexc + pyval" where
  "py_index (PList xs) i = (if i < length xs then Inr (xs ! i) else Inl IndexError)"
| "py_index (PStr s) i = (if i < length s then Inr (PStr [s ! i]) else Inl IndexError)"
| "py_index (PDict d) i = Inl KeyError"
| "py_index (PCIDict d) i = Inl AttributeError"
| "py_index _ i = Inl TypeError"

text \<open>\<open>v[k] = x\<close> for a string key \<open>k\<close>.\<close>

fun py_setitem :: "pyval \<Rightarrow> string \<Rightarrow> pyval \<Rightarrow> pyexc + pyval" where
  "py_setitem (PDict d) k x = Inr (PDict (dict_set d k x))"
| "py_setitem (PCIDict d) k x = Inr (PCIDict (ci_set d k x))"
| "py_setitem _ k x = Inl TypeError"

text \<open>\<open>d.get(k)\<close> and \<open>k in d\<close> on a dict with string keys, for a key \<open>k\<close> of any type:
  lists and dicts are unhashable, any other non-string key is simply absent.\<close>

fun py_dict_get :: "'v dict \<Rightarrow> pyval \<Rightarrow> pyexc + 'v option" where
  "py_dict_get d (PStr s) = Inr (dict_get d s)"
| "py_dict_get d (PList xs) = Inl TypeError"
| "py_dict_get d (PDict x) = Inl TypeError"
| "py_dict_get d (PCIDict x) = Inl TypeError"
| "py_dict_get d _ = Inr None"

text \<open>A list comprehension or loop whose body can raise.\<close>

fun map_result :: "('a \<Rightarrow> 'e + 'b) \<Rightarrow> 'a list \<Rightarrow> 'e + 'b list" where
  "map_result f [] = Inr []"
| "map_result f (x # xs) =
     (case f x of Inl e \<Rightarrow> Inl e
      | Inr y \<Rightarrow> (case map_result f xs of Inl e \<Rightarrow> Inl e | Inr ys \<Rightarrow> Inr (y # ys)))"

section \<open>The payload\<close>

record email_address =
  addr_spec :: string
  display_name :: string

record attachment =
  name :: "string option"
  b64content :: string
  inline :: bool

text \<open>
  Modelled from the spec: the base class \<open>RequestsPayload\<close> is not part of the source file.
  The fields \<open>data\<close> to \<open>to_recipients\<close> are those that \<open>__init__\<close> and \<open>init_payload\<close>
  of \<open>SendinBluePayload\<close> set up; the last three stand for the base class. \<open>is_batch()\<close> says
  whether "this is a batch send"; the base class decides it from the message, so it is a
  field here. \<open>ignore_unsupported_features\<close> and \<open>unsupported\<close> belong to
  \<open>unsupported_feature\<close> below. The inherited \<open>serialize_json\<close> is a parameter \<open>sj\<close> of
  the functions that call it: it returns the JSON text or raises.
\<close>

record payload =
  data :: "pyval dict"
  merge_data :: "pyval dict"
  metadata :: "pyval dict"
  merge_metadata :: "(pyval dict) dict"
  all_recipients :: "email_address list"
  to_recipients :: "email_address list"
  is_batch :: bool
  ignore_unsupported_features :: bool
  unsupported :: "string list"

datatype error =
    PyExc pyexc
  | AnymailUnsupportedFeature string
  | AnymailSerializationError

text \<open>
  Modelled from the spec: \<open>unsupported_feature\<close> of the base class is missing from the
  source file. A feature the vendor cannot express "is reported through a non-fatal
  unsupported-feature signal (collected/raised per framework convention)", "letting callers
  choose to ignore or abort": the signal is raised as the exception
  \<open>AnymailUnsupportedFeature\<close>, which ends the setter, unless the caller chose to ignore
  unsupported features; then it is collected in \<open>unsupported\<close> and the setter goes on.

  The payload is a Python object that outlives an exception, and nothing is rolled back.
  For the setters that signal an unsupported feature the result \<open>Inl (e, q)\<close> therefore
  holds, next to the exception \<open>e\<close>, the state \<open>q\<close> of the payload when the exception
  leaves the setter.
\<close>

definition unsupported_feature :: "payload \<Rightarrow> string \<Rightarrow> error \<times> payload + payload" where
  "unsupported_feature p feature =
     (if ignore_unsupported_features p
      then Inr (p\<lparr>unsupported := unsupported p @ [feature]\<rparr>)
      else Inl (AnymailUnsupportedFeature feature, p))"

text \<open>\<open>__init__\<close> and \<open>init_payload\<close>: the state before the first setter runs.\<close>

definition init_payload :: "bool \<Rightarrow> bool \<Rightarrow> payload" where
  "init_payload batch ignore =
     \<lparr>data = [(''headers'', PCIDict [])], merge_data = [], metadata = [],
      merge_metadata = [], all_recipients = [], to_recipients = [],
      is_batch = batch, ignore_unsupported_features = ignore, unsupported = []\<rparr>"

definition email_object :: "email_address \<Rightarrow> pyval" where
  "email_object email =
     PDict ([(''email'', PStr (addr_spec email))] @
            (if display_name email \<noteq> [] then [(''name'', PStr (display_name email))] else []))"

definition set_recipients :: "payload \<Rightarrow> string \<Rightarrow> email_address list \<Rightarrow> error + payload" where
  "set_recipients p recipient_type emails =
     (if recipient_type \<notin> set [''to'', ''cc'', ''bcc''] then Inl (PyExc AssertionError)
      else if emails \<noteq> [] then
        Inr (p\<lparr>data := dict_set (data p) recipient_type (PList (map email_object emails)),
               all_recipients := all_recipients p @ emails,
               to_recipients := (if recipient_type = ''to'' then emails else to_recipients p)\<rparr>)
      else Inr p)"

definition set_html_body :: "payload \<Rightarrow> string \<Rightarrow> error \<times> payload + payload" where
  "set_html_body p body =
     (if body \<noteq> [] then
        (case (if dict_get (data p) ''htmlContent'' \<noteq> None
               then unsupported_feature p ''multiple html parts'' else Inr p) of
           Inl raised \<Rightarrow> Inl raised
         | Inr p' \<Rightarrow> Inr (p'\<lparr>data := dict_set (data p') ''htmlContent'' (PStr body)\<rparr>))
      else Inr p)"

definition att_entry :: "attachment \<Rightarrow> pyval" where
  "att_entry a =
     PDict [(''name'', PStr (case name a of None \<Rightarrow> [] | Some n \<Rightarrow> n)),
            (''content'', PStr (b64content a))]"

text \<open>\<open>self.data.setdefault("attachment", []).append(att)\<close>: only a list has \<open>append\<close>.\<close>

definition append_attachment :: "pyval dict \<Rightarrow> pyval \<Rightarrow> pyexc + pyval dict" where
  "append_attachment d att =
     (case dict_get d ''attachment'' of
        None \<Rightarrow> Inr (dict_set d ''attachment'' (PList [att]))
      | Some (PList xs) \<Rightarrow> Inr (dict_set d ''attachment'' (PList (xs @ [att])))
      | Some _ \<Rightarrow> Inl AttributeError)"

definition add_attachment :: "payload \<Rightarrow> attachment \<Rightarrow> error \<times> payload + payload" where
  "add_attachment p a =
     (let att = att_entry a in
      case (if inline a then unsupported_feature p ''inline attachments'' else Inr p) of
        Inl raised \<Rightarrow> Inl raised
      | Inr p' \<Rightarrow>
          (case append_attachment (data p') att of
             Inl e \<Rightarrow> Inl (PyExc e, p')
           | Inr d \<Rightarrow> Inr (p'\<lparr>data := d\<rparr>)))"

text \<open>The framework calls \<open>add_attachment\<close> once per attachment, in order; an exception
  ends the construction.\<close>

fun add_attachments :: "payload \<Rightarrow> attachment list \<Rightarrow> error \<times> payload + payload" where
  "add_attachments p [] = Inr p"
| "add_attachments p (a # as) =
     (case add_attachment p a of Inl raised \<Rightarrow> Inl raised | Inr p' \<Rightarrow> add_attachments p' as)"

text \<open>
  \<open>send_at.isoformat(timespec="milliseconds")\<close>. The built-in values (None, numbers,
  strings, lists, dicts) have no \<open>isoformat\<close> attribute. For an object of another class
  the parameter \<open>isoformat_of\<close> gives its \<open>isoformat\<close> method, if it has one: from the
  \<open>timespec\<close> argument to the string returned or the exception raised. A datetime has a
  method that accepts \<open>timespec\<close>; a date has one that does not (TypeError).
\<close>

type_synonym isoformat_method = "string \<Rightarrow> pyexc + string"

fun supports_isoformat :: "(nat \<Rightarrow> isoformat_method option) \<Rightarrow> pyval \<Rightarrow> bool" where
  "supports_isoformat isoformat_of (PObj h) = (isoformat_of h \<noteq> None)"
| "supports_isoformat isoformat_of _ = False"

fun call_isoformat :: "(nat \<Rightarrow> isoformat_method option) \<Rightarrow> pyval \<Rightarrow> string \<Rightarrow> pyexc + string" where
  "call_isoformat isoformat_of (PObj h) timespec =
     (case isoformat_of h of None \<Rightarrow> Inl AttributeError | Some method \<Rightarrow> method timespec)"
| "call_isoformat isoformat_of _ timespec = Inl AttributeError"

definition set_send_at :: "(nat \<Rightarrow> isoformat_method option) \<Rightarrow> payload \<Rightarrow> pyval \<Rightarrow> error + payload" where
  "set_send_at isoformat_of p send_at =
     (case call_isoformat isoformat_of send_at ''milliseconds'' of
        Inr start_time_iso \<Rightarrow> Inr (p\<lparr>data := dict_set (data p) ''scheduledAt'' (PStr start_time_iso)\<rparr>)
      | Inl e \<Rightarrow>
          if e = AttributeError \<or> e = TypeError
          then Inr (p\<lparr>data := dict_set (data p) ''scheduledAt'' send_at\<rparr>)
          else Inl (PyExc e))"

definition set_merge_data :: "payload \<Rightarrow> pyval dict \<Rightarrow> payload" where
  "set_merge_data p md = p\<lparr>merge_data := md\<rparr>"

definition set_merge_metadata :: "payload \<Rightarrow> (pyval dict) dict \<Rightarrow> payload" where
  "set_merge_metadata p mm = p\<lparr>merge_metadata := mm\<rparr>"

text \<open>\<open>self.data["headers"]["X-Mailin-custom"] = self.serialize_json(metadata)\<close>: the
  right-hand side is evaluated first.\<close>

definition set_metadata :: "(pyval \<Rightarrow> error + string) \<Rightarrow> payload \<Rightarrow> pyval dict \<Rightarrow> error + payload" where
  "set_metadata sj p md =
     (case sj (PDict md) of
        Inl e \<Rightarrow> Inl e
      | Inr s \<Rightarrow>
          (case dict_get (data p) ''headers'' of
             None \<Rightarrow> Inl (PyExc KeyError)
           | Some h \<Rightarrow>
               (case py_setitem h ''X-Mailin-custom'' (PStr s) of
                  Inl e \<Rightarrow> Inl (PyExc e)
                | Inr h' \<Rightarrow> Inr (p\<lparr>data := dict_set (data p) ''headers'' h', metadata := md\<rparr>))))"

subsection \<open>serialize_data\<close>

text \<open>\<open>self.data.pop("to", [])\<close>: the value popped.\<close>

definition data_to :: "payload \<Rightarrow> pyval" where
  "data_to p = (case dict_get (data p) ''to'' of None \<Rightarrow> PList [] | Some v \<Rightarrow> v)"

text \<open>One element of the list comprehension that bursts \<open>data["to"]\<close>:
  \<open>{"to": [to], "params": r}\<close>, where \<open>r\<close> is the result of \<open>merge_data.get\<close>.\<close>

definition version_base :: "pyval \<Rightarrow> pyval option \<Rightarrow> pyval dict" where
  "version_base to r = [(''to'', PList [to]), (''params'', (case r of None \<Rightarrow> PNone | Some x \<Rightarrow> x))]"

definition message_version :: "payload \<Rightarrow> pyval \<Rightarrow> error + pyval" where
  "message_version p to =
     (case py_getitem to ''email'' of
        Inl e \<Rightarrow> Inl (PyExc e)
      | Inr em \<Rightarrow>
          (case py_dict_get (merge_data p) em of
             Inl e \<Rightarrow> Inl (PyExc e)
           | Inr r \<Rightarrow> Inr (PDict (version_base to r))))"

text \<open>The body of the loop over \<open>data["messageVersions"]\<close>; it updates the version in
  place, so the list in \<open>data\<close> holds the updated version.\<close>

definition version_headers :: "(pyval \<Rightarrow> error + string) \<Rightarrow> payload \<Rightarrow> pyval \<Rightarrow> error + pyval" where
  "version_headers sj p version =
     (case py_getitem version ''to'' of
        Inl e \<Rightarrow> Inl (PyExc e)
      | Inr to_field \<Rightarrow>
      (case py_index to_field 0 of
        Inl e \<Rightarrow> Inl (PyExc e)
      | Inr to \<Rightarrow>
      (case py_getitem to ''email'' of
        Inl e \<Rightarrow> Inl (PyExc e)
      | Inr to_email \<Rightarrow>
      (case py_dict_get (merge_metadata p) to_email of
        Inl e \<Rightarrow> Inl (PyExc e)
      | Inr None \<Rightarrow> Inr version
      | Inr (Some rm) \<Rightarrow>
      (case sj (PDict (dict_update (metadata p) rm)) of
        Inl e \<Rightarrow> Inl e
      | Inr s \<Rightarrow>
      (case py_setitem version ''headers'' (PDict [(''X-Mailin-custom'', PStr s)]) of
        Inl e \<Rightarrow> Inl (PyExc e)
      | Inr version' \<Rightarrow> Inr version'))))))"

text \<open>The batch branch: the new value of \<open>data\<close>.\<close>

definition burst_to :: "(pyval \<Rightarrow> error + string) \<Rightarrow> payload \<Rightarrow> error + pyval dict" where
  "burst_to sj p =
     (case py_iter (data_to p) of
        Inl e \<Rightarrow> Inl (PyExc e)
      | Inr to_list \<Rightarrow>
      (case map_result (message_version p) to_list of
        Inl e \<Rightarrow> Inl e
      | Inr versions \<Rightarrow>
      (case (if merge_metadata p \<noteq> []
             then map_result (version_headers sj p) versions else Inr versions) of
        Inl e \<Rightarrow> Inl e
      | Inr versions' \<Rightarrow>
          Inr (dict_set (dict_del (data p) ''to'') ''messageVersions'' (PList versions')))))"

definition serialize_data :: "(pyval \<Rightarrow> error + string) \<Rightarrow> payload \<Rightarrow> error + payload \<times> string" where
  "serialize_data sj p =
     (case (if is_batch p then burst_to sj p else Inr (data p)) of
        Inl e \<Rightarrow> Inl e
      | Inr d \<Rightarrow>
      (case dict_get d ''headers'' of
        None \<Rightarrow> Inl (PyExc KeyError)
      | Some h \<Rightarrow>
          (let d' = (if \<not> truthy h then dict_del d ''headers'' else d) in
           case sj (PDict d') of
             Inl e \<Rightarrow> Inl e
           | Inr s \<Rightarrow> Inr (p\<lparr>data := d'\<rparr>, s))))"

section \<open>The backend\<close>

record backend =
  api_key :: string
  api_url :: string

record response =
  content :: string

record recipient_status =
  message_id :: pyval
  status :: string

text \<open>\<open>'m\<close> is the type of the framework's message object, which the backend only passes on.
  \<open>Uncaught\<close> is a built-in exception that leaves \<open>parse_recipient_status\<close>.\<close>

datatype 'm api_error =
    AnymailRequestsAPIError string 'm payload response backend
  | Uncaught pyexc

text \<open>A key of a dict or an element of a set must be hashable: lists and dicts are not.\<close>

fun hashable :: "pyval \<Rightarrow> bool" where
  "hashable (PList xs) = False"
| "hashable (PDict d) = False"
| "hashable (PCIDict d) = False"
| "hashable _ = True"

text \<open>
  Modelled from the spec: the class \<open>AnymailRecipientStatus\<close> is imported from the
  framework's message module, which is not part of the source file. A recipient status is
  "{vendor message id, delivery state}". The constructor takes a message id that is a
  scalar (None, a string, a number); it puts the id in a set, and so raises TypeError for
  an id that is a JSON array or object. The state "queued", the only one used here, is
  one it accepts.
\<close>

definition AnymailRecipientStatus :: "pyval \<Rightarrow> string \<Rightarrow> pyexc + recipient_status" where
  "AnymailRecipientStatus mid st =
     (if hashable mid then Inr \<lparr>message_id = mid, status = st\<rparr> else Inl TypeError)"

text \<open>The dict comprehension over \<open>payload.all_recipients\<close>.\<close>

fun default_status :: "recipient_status \<Rightarrow> recipient_status dict \<Rightarrow> email_address list \<Rightarrow> recipient_status dict" where
  "default_status st rs [] = rs"
| "default_status st rs (r # recipients) = default_status st (dict_set rs (addr_spec r) st) recipients"

text \<open>The loop over \<open>zip(payload.to_recipients, message_ids)\<close>; each round constructs a
  status.\<close>

fun zip_status :: "recipient_status dict \<Rightarrow> (email_address \<times> pyval) list \<Rightarrow> pyexc + recipient_status dict" where
  "zip_status rs [] = Inr rs"
| "zip_status rs ((to, mid) # pairs) =
     (case AnymailRecipientStatus mid ''queued'' of
        Inl e \<Rightarrow> Inl e
      | Inr st \<Rightarrow> zip_status (dict_set rs (addr_spec to) st) pairs)"

text \<open>The first part: \<open>message_id\<close> and \<open>message_ids\<close> from the response.
  \<open>deserialize_json_response\<close> is inherited from the base class, which is not part of the
  source file; it is a parameter, from the response to the parsed JSON value or the
  exception raised.\<close>

definition response_ids ::
  "(response \<Rightarrow> payload \<Rightarrow> 'm \<Rightarrow> 'm api_error + pyval) \<Rightarrow> backend \<Rightarrow> response \<Rightarrow> payload \<Rightarrow> 'm
    \<Rightarrow> 'm api_error + pyval \<times> pyval" where
  "response_ids deserialize_json_response self resp p message =
     (if content resp \<noteq> [] then
        (case deserialize_json_response resp p message of
           Inl e \<Rightarrow> Inl e
         | Inr parsed_response \<Rightarrow>
             (case py_getitem parsed_response ''messageId'' of
                Inr mid \<Rightarrow> Inr (mid, PList [])
              | Inl e \<Rightarrow>
                  if e = KeyError \<or> e = TypeError then
                    (case py_getitem parsed_response ''messageIds'' of
                       Inr mids \<Rightarrow> Inr (PNone, mids)
                     | Inl e' \<Rightarrow>
                         if e' = KeyError \<or> e' = TypeError
                         then Inl (AnymailRequestsAPIError ''Invalid SendinBlue API response format''
                                     message p resp self)
                         else Inl (Uncaught e'))
                  else Inl (Uncaught e)))
      else Inr (PNone, PList []))"

text \<open>The second part: the mapping, from \<open>message_id\<close> and \<open>message_ids\<close>.\<close>

definition status_mapping :: "payload \<Rightarrow> pyval \<Rightarrow> pyval \<Rightarrow> 'm api_error + recipient_status dict" where
  "status_mapping p mid mids =
     (case AnymailRecipientStatus mid ''queued'' of
        Inl e \<Rightarrow> Inl (Uncaught e)
      | Inr st \<Rightarrow>
          (let rs = default_status st [] (all_recipients p)
           in if truthy mids then
                (case py_iter mids of
                   Inl e \<Rightarrow> Inl (Uncaught e)
                 | Inr ids \<Rightarrow>
                     (case zip_status rs (zip (to_recipients p) ids) of
                        Inl e \<Rightarrow> Inl (Uncaught e)
                      | Inr rs' \<Rightarrow> Inr rs'))
              else Inr rs))"

definition parse_recipient_status ::
  "(response \<Rightarrow> payload \<Rightarrow> 'm \<Rightarrow> 'm api_error + pyval) \<Rightarrow> backend \<Rightarrow> response \<Rightarrow> payload \<Rightarrow> 'm
    \<Rightarrow> 'm api_error + recipient_status dict" where
  "parse_recipient_status deserialize_json_response self resp p message =
     (case response_ids deserialize_json_response self resp p message of
        Inl e \<Rightarrow> Inl e
      | Inr (mid, mids) \<Rightarrow> status_mapping p mid mids)"

text \<open>\<open>k in v\<close> for a parsed JSON value: only an object contains keys.\<close>

fun contains_key :: "pyval \<Rightarrow> string \<Rightarrow> bool" where
  "contains_key (PDict d) k = (k \<in> set (map fst d))"
| "contains_key (PCIDict d) k = (lower k \<in> set (map (\<lambda>kv. lower (fst kv)) d))"
| "contains_key _ k = False"

text \<open>The result is the exception \<open>AnymailRequestsAPIError\<close>.\<close>

fun api_format_error :: "'m api_error + 'a \<Rightarrow> bool" where
  "api_format_error (Inl (AnymailRequestsAPIError txt m p r b)) = True"
| "api_format_error _ = False"

section \<open>Call sequences of the framework\<close>

text \<open>The base class calls \<open>set_recipients\<close> for "to", then "cc", then "bcc".\<close>

definition set_to_cc_bcc ::
  "payload \<Rightarrow> email_address list \<Rightarrow> email_address list \<Rightarrow> email_address list \<Rightarrow> error + payload" where
  "set_to_cc_bcc p tos ccs bccs =
     (case set_recipients p ''to'' tos of
        Inl e \<Rightarrow> Inl e
      | Inr p1 \<Rightarrow>
          (case set_recipients p1 ''cc'' ccs of
             Inl e \<Rightarrow> Inl e
           | Inr p2 \<Rightarrow> set_recipients p2 ''bcc'' bccs))"

text \<open>Two HTML parts: \<open>set_html_body\<close> is called once for each.\<close>

definition set_html_body_twice :: "payload \<Rightarrow> string \<Rightarrow> string \<Rightarrow> error \<times> payload + payload" where
  "set_html_body_twice p b1 b2 =
     (case set_html_body p b1 of Inl raised \<Rightarrow> Inl raised | Inr p1 \<Rightarrow> set_html_body p1 b2)"

section \<open>Sample values\<close>

definition alice :: email_address where
  "alice = \<lparr>addr_spec = ''a@example.com'', display_name = []\<rparr>"

definition bob :: email_address where
  "bob = \<lparr>addr_spec = ''b@example.com'', display_name = ''B''\<rparr>"

definition carol :: email_address where
  "carol = \<lparr>addr_spec = ''c@example.com'', display_name = []\<rparr>"

definition sample_backend :: backend where
  "sample_backend = \<lparr>api_key = ''key'', api_url = ''https://api.brevo.com/v3/''\<rparr>"

text \<open>A response with a body; what the body parses to is given by the parameter
  \<open>deserialize_json_response\<close>.\<close>

definition sample_response :: response where
  "sample_response = \<lparr>content = ''{...}''\<rparr>"

text \<open>A batch payload with alice and bob as "to" and carol as "cc".\<close>

definition sample_payload :: payload where
  "sample_payload =
     (init_payload True False)
       \<lparr>all_recipients := [alice, bob, carol], to_recipients := [alice, bob]\<rparr>"

text \<open>Three objects: 0 is a datetime, whose \<open>isoformat\<close> accepts \<open>timespec\<close>; 1 is a date,
  whose \<open>isoformat\<close> takes no argument, so that the call with \<open>timespec\<close> raises TypeError;
  2 has an \<open>isoformat\<close> that raises ValueError. No other object has the method.\<close>

definition sample_isoformat :: "nat \<Rightarrow> isoformat_method option" where
  "sample_isoformat h =
     (if h = 0 then Some (\<lambda>timespec. if timespec = ''milliseconds''
                                     then Inr ''2030-05-01T09:30:00.000+00:00''
                                     else Inr ''2030-05-01T09:30:00+00:00'')
      else if h = 1 then Some (\<lambda>timespec. Inl TypeError)
      else if h = 2 then Some (\<lambda>timespec. Inl ValueError)
      else None)"

text \<open>A serializer for the samples; it tells the two metadata mappings apart.\<close>

definition sample_sj :: "pyval \<Rightarrow> error + string" where
  "sample_sj v =
     Inr (if v = PDict [(''order'', PInt 1)] then ''{order: 1}''
          else if v = PDict [(''order'', PInt 2)] then ''{order: 2}''
          else ''{...}'')"

text \<open>A batch payload as the setters leave it (\<open>sample_batch_built\<close>): two "to"
  recipients, merge data for alice, global metadata, and a metadata override for bob.\<close>

definition sample_batch :: payload where
  "sample_batch =
     (init_payload True False)
       \<lparr>data := [(''headers'', PCIDict [(''X-Mailin-custom'', PStr ''{order: 1}'')]),
                 (''to'', PList [email_object alice, email_object bob])],
        merge_data := [(''a@example.com'', PDict [(''name'', PStr ''Alice'')])],
        metadata := [(''order'', PInt 1)],
        merge_metadata := [(''b@example.com'', [(''order'', PInt 2)])],
        all_recipients := [alice, bob], to_recipients := [alice, bob]\<rparr>"

text \<open>The data of \<open>sample_batch\<close> after \<open>serialize_data\<close>.\<close>

definition sample_sent :: "pyval dict" where
  "sample_sent =
     [(''headers'', PCIDict [(''X-Mailin-custom'', PStr ''{order: 1}'')]),
      (''messageVersions'',
       PList
        [PDict [(''to'', PList [PDict [(''email'', PStr ''a@example.com'')]]),
                (''params'', PDict [(''name'', PStr ''Alice'')])],
         PDict [(''to'', PList [PDict [(''email'', PStr ''b@example.com''), (''name'', PStr ''B'')]]),
                (''params'', PNone),
                (''headers'', PDict [(''X-Mailin-custom'', PStr ''{order: 2}'')])]])]"

lemmas sample_defs =
  alice_def bob_def carol_def sample_backend_def sample_response_def sample_payload_def
  init_payload_def

text \<open>A second batch payload: the global metadata has a key that bob's override leaves alone
  ("user"), one that it replaces ("order"), and the override has a key of its own ("tier").
  alice has no override.\<close>

definition sample_sj_md :: "pyval \<Rightarrow> error + string" where
  "sample_sj_md v =
     Inr (if v = PDict [(''order'', PInt 1), (''user'', PStr ''u7'')]
          then ''{order: 1, user: u7}''
          else if v = PDict [(''order'', PInt 2), (''user'', PStr ''u7''), (''tier'', PStr ''gold'')]
          then ''{order: 2, user: u7, tier: gold}''
          else ''{...}'')"

definition sample_batch_md :: payload where
  "sample_batch_md =
     (init_payload True False)
       \<lparr>data := [(''headers'', PCIDict [(''X-Mailin-custom'', PStr ''{order: 1, user: u7}'')]),
                 (''to'', PList [email_object alice, email_object bob])],
        metadata := [(''order'', PInt 1), (''user'', PStr ''u7'')],
        merge_metadata := [(''b@example.com'', [(''order'', PInt 2), (''tier'', PStr ''gold'')])],
        all_recipients := [alice, bob], to_recipients := [alice, bob]\<rparr>"

definition sample_sent_md :: "pyval dict" where
  "sample_sent_md =
     [(''headers'', PCIDict [(''X-Mailin-custom'', PStr ''{order: 1, user: u7}'')]),
      (''messageVersions'',
       PList
        [PDict [(''to'', PList [PDict [(''email'', PStr ''a@example.com'')]]),
                (''params'', PNone)],
         PDict [(''to'', PList [PDict [(''email'', PStr ''b@example.com''), (''name'', PStr ''B'')]]),
                (''params'', PNone),
                (''headers'',
                 PDict [(''X-Mailin-custom'', PStr ''{order: 2, user: u7, tier: gold}'')])]])]"

section \<open>Dictionaries: lookup after update\<close>

lemma dict_get_set: "dict_get (dict_set d k v) k' = (if k' = k then Some v else dict_get d k')"
  by (induction d) (auto simp: dict_get_def)

lemma dict_get_del: "dict_get (dict_del d k) k' = (if k' = k then None else dict_get d k')"
  by (induction d) (auto simp: dict_get_def dict_del_def)

lemma map_of_dict_set: "map_of (dict_set d k v) = (map_of d)(k \<mapsto> v)"
  by (induction d) (auto simp: fun_eq_iff)

lemma keys_dict_set: "fst ` set (dict_set d k v) = insert k (fst ` set d)"
proof -
  have "dom (map_of (dict_set d k v)) = insert k (dom (map_of d))"
    by (simp add: map_of_dict_set)
  then show ?thesis by (simp add: dom_map_of_conv_image_fst)
qed

lemma map_of_rev_distinct: "distinct (map fst xs) \<Longrightarrow> map_of (rev xs) = map_of xs"
proof (induction xs)
  case Nil
  show ?case by simp
next
  case (Cons kv xs)
  have "fst kv \<notin> dom (map_of xs)"
    using Cons.prems by (simp add: dom_map_of_conv_image_fst)
  then have "map_of xs (fst kv) = None" by blast
  then show ?case
    using Cons by (cases kv) (auto simp: fun_eq_iff map_add_def split: option.splits)
qed

lemma map_of_dict_update: "map_of (dict_update a b) = map_of a ++ map_of (rev b)"
proof (induction b arbitrary: a)
  case Nil
  show ?case by simp
next
  case (Cons kv b)
  obtain k v where kv: "kv = (k, v)" by (cases kv)
  show ?case
    unfolding kv by (simp add: Cons.IH map_of_dict_set fun_eq_iff map_add_def split: option.splits)
qed

text \<open>The lookups of \<open>a.copy()\<close> updated with \<open>b\<close>: a key of \<open>b\<close> has the value \<open>b\<close> gives it
  (the last one, should the list hold the key twice; a dict holds it once), any other key
  keeps the value it has in \<open>a\<close>.\<close>

lemma dict_update_overrides:
  "dict_get (dict_update a b) k
     = (case dict_get (rev b) k of None \<Rightarrow> dict_get a k | Some v \<Rightarrow> Some v)"
  unfolding dict_get_def by (simp add: map_of_dict_update map_add_def)

lemma dict_update_lookup:
  assumes "distinct (map fst b)"
  shows "dict_get (dict_update a b) k = (case dict_get b k of None \<Rightarrow> dict_get a k | Some v \<Rightarrow> Some v)"
  unfolding dict_get_def using assms
  by (simp add: map_of_dict_update map_add_def map_of_rev_distinct)

section \<open>Recipients\<close>

text \<open>
  Claim C7. On a payload that holds no recipients yet, the calls of \<open>set_recipients\<close> for
  "to", "cc" and "bcc", with any lists (empty ones too), all return; afterwards
  \<open>all_recipients\<close> is the to list followed by the cc list followed by the bcc list, and
  \<open>to_recipients\<close> is the to list. A call with an empty list returns the payload as it was:
  no key is added to \<open>data\<close> and no recipient is accumulated.
\<close>

theorem set_recipients_order:
  assumes "all_recipients p = []" and "to_recipients p = []"
  shows "(\<exists>p'. set_to_cc_bcc p tos ccs bccs = Inr p'
            \<and> all_recipients p' = tos @ ccs @ bccs \<and> to_recipients p' = tos)
         \<and> set_recipients q ''to'' [] = Inr q
         \<and> set_recipients q ''cc'' [] = Inr q
         \<and> set_recipients q ''bcc'' [] = Inr q"
  using assms by (auto simp: set_to_cc_bcc_def set_recipients_def)

theorem set_recipients_order_witness:
  "all_recipients (init_payload False False) = []
   \<and> to_recipients (init_payload False False) = []
   \<and> (\<exists>p'. set_to_cc_bcc (init_payload False False)
              [\<lparr>addr_spec = ''a@example.com'', display_name = ''A''\<rparr>] []
              [\<lparr>addr_spec = ''b@example.com'', display_name = []\<rparr>] = Inr p'
         \<and> all_recipients p' = [\<lparr>addr_spec = ''a@example.com'', display_name = ''A''\<rparr>,
                                 \<lparr>addr_spec = ''b@example.com'', display_name = []\<rparr>]
         \<and> to_recipients p' = [\<lparr>addr_spec = ''a@example.com'', display_name = ''A''\<rparr>])"
  using set_recipients_order [of "init_payload False False"
      "[\<lparr>addr_spec = ''a@example.com'', display_name = ''A''\<rparr>]" "[]"
      "[\<lparr>addr_spec = ''b@example.com'', display_name = []\<rparr>]"]
  by (simp add: init_payload_def)

section \<open>Unsupported features\<close>

text \<open>
  Claim C3, as amended. After a first \<open>set_html_body\<close> with a non-empty body has returned,
  \<open>data["htmlContent"]\<close> is that body, and a second call with a non-empty body signals
  "multiple html parts" exactly once. When the signal is raised, the exception leaves the
  setter with the payload exactly as it was before the second call, so the first body
  stays; when unsupported features are ignored, the signal is collected once and the
  second body replaces the first.
\<close>

theorem set_html_body_second_call:
  assumes "b1 \<noteq> []" and "b2 \<noteq> []" and "set_html_body p b1 = Inr p1"
  shows "dict_get (data p1) ''htmlContent'' = Some (PStr b1) \<and>
         set_html_body p1 b2 =
           (if ignore_unsupported_features p
            then Inr (p1\<lparr>data := dict_set (data p1) ''htmlContent'' (PStr b2),
                        unsupported := unsupported p1 @ [''multiple html parts'']\<rparr>)
            else Inl (AnymailUnsupportedFeature ''multiple html parts'', p1))"
  using assms
  by (auto simp: set_html_body_def unsupported_feature_def dict_get_set split: if_splits)

theorem set_html_body_second_call_witness:
  "''<p>first</p>'' \<noteq> [] \<and> ''<p>second</p>'' \<noteq> []
   \<and> set_html_body (init_payload False False) ''<p>first</p>''
       = Inr ((init_payload False False)
                \<lparr>data := [(''headers'', PCIDict []), (''htmlContent'', PStr ''<p>first</p>'')]\<rparr>)
   \<and> set_html_body ((init_payload False False)
                \<lparr>data := [(''headers'', PCIDict []), (''htmlContent'', PStr ''<p>first</p>'')]\<rparr>)
         ''<p>second</p>''
       = Inl (AnymailUnsupportedFeature ''multiple html parts'',
              (init_payload False False)
                \<lparr>data := [(''headers'', PCIDict []), (''htmlContent'', PStr ''<p>first</p>'')]\<rparr>)
   \<and> dict_get (data ((init_payload False False)
                \<lparr>data := [(''headers'', PCIDict []), (''htmlContent'', PStr ''<p>first</p>'')]\<rparr>))
         ''htmlContent'' = Some (PStr ''<p>first</p>'')"
proof -
  have first: "set_html_body (init_payload False False) ''<p>first</p>''
       = Inr ((init_payload False False)
                \<lparr>data := [(''headers'', PCIDict []), (''htmlContent'', PStr ''<p>first</p>'')]\<rparr>)"
    by (simp add: set_html_body_def init_payload_def dict_get_def)
  from set_html_body_second_call [OF _ _ first, of "''<p>second</p>''"] first
  show ?thesis by (simp add: init_payload_def)
qed

text \<open>With unsupported features ignored, the second body is the one stored.\<close>

theorem set_html_body_twice_counterexample:
  "set_html_body_twice (init_payload False True) ''<p>first</p>'' ''<p>second</p>''
     = Inr ((init_payload False True)
              \<lparr>data := [(''headers'', PCIDict []), (''htmlContent'', PStr ''<p>second</p>'')],
               unsupported := [''multiple html parts'']\<rparr>)"
  by (simp add: set_html_body_twice_def set_html_body_def unsupported_feature_def
      init_payload_def dict_get_def)

lemma add_attachment_step:
  assumes "dict_get (data p) ''attachment'' = None \<and> xs = []
             \<or> dict_get (data p) ''attachment'' = Some (PList xs)"
    and "ignore_unsupported_features p \<or> \<not> inline a"
  shows "add_attachment p a =
           Inr (p\<lparr>data := dict_set (data p) ''attachment'' (PList (xs @ [att_entry a])),
                  unsupported := unsupported p @ (if inline a then [''inline attachments''] else [])\<rparr>)"
  using assms
  by (auto simp: add_attachment_def append_attachment_def unsupported_feature_def)

lemma add_attachments_list:
  assumes "dict_get (data p) ''attachment'' = None \<and> xs = []
             \<or> dict_get (data p) ''attachment'' = Some (PList xs)"
    and "ignore_unsupported_features p \<or> list_all (\<lambda>a. \<not> inline a) atts"
    and "atts \<noteq> []"
  shows "\<exists>p'. add_attachments p atts = Inr p'
           \<and> dict_get (data p') ''attachment'' = Some (PList (xs @ map att_entry atts))
           \<and> unsupported p' = unsupported p @ map (\<lambda>a. ''inline attachments'') (filter inline atts)"
  using assms
proof (induction atts arbitrary: p xs)
  case Nil
  then show ?case by simp
next
  case (Cons a atts)
  define p1 where "p1 = p\<lparr>data := dict_set (data p) ''attachment'' (PList (xs @ [att_entry a])),
                  unsupported := unsupported p @ (if inline a then [''inline attachments''] else [])\<rparr>"
  have step: "add_attachment p a = Inr p1"
    unfolding p1_def using Cons.prems(1,2) by (intro add_attachment_step) auto
  have att1: "dict_get (data p1) ''attachment'' = Some (PList (xs @ [att_entry a]))"
    by (simp add: p1_def dict_get_set)
  show ?case
  proof (cases "atts = []")
    case True
    then show ?thesis using step att1 by (simp add: p1_def)
  next
    case False
    have "ignore_unsupported_features p1 \<or> list_all (\<lambda>a. \<not> inline a) atts"
      using Cons.prems(2) by (auto simp: p1_def)
    from Cons.IH [OF disjI2 [OF att1] this False] step show ?thesis
      by (auto simp: p1_def)
  qed
qed

text \<open>
  Claim C10, as amended. On a payload without attachments, the calls of \<open>add_attachment\<close>
  for a non-empty list of attachments all return when no attachment is inline or when
  unsupported features are ignored; then \<open>data["attachment"]\<close> holds one entry per call, in
  call order, inline attachments included, and each inline attachment is signalled once.
  When the signal is raised instead, the exception leaves the call for an inline
  attachment with the payload exactly as it was before the call: the entry is not appended.
\<close>

theorem add_attachment_appends:
  "(dict_get (data p) ''attachment'' = None \<and> atts \<noteq> []
      \<and> (ignore_unsupported_features p \<or> list_all (\<lambda>a. \<not> inline a) atts)
    \<longrightarrow> (\<exists>p'. add_attachments p atts = Inr p'
           \<and> dict_get (data p') ''attachment'' = Some (PList (map att_entry atts))
           \<and> unsupported p' = unsupported p @ map (\<lambda>a. ''inline attachments'') (filter inline atts)))
   \<and> (\<not> ignore_unsupported_features q \<and> inline a
    \<longrightarrow> add_attachment q a = Inl (AnymailUnsupportedFeature ''inline attachments'', q))"
proof (intro conjI impI)
  assume h: "dict_get (data p) ''attachment'' = None \<and> atts \<noteq> []
      \<and> (ignore_unsupported_features p \<or> list_all (\<lambda>a. \<not> inline a) atts)"
  then have "dict_get (data p) ''attachment'' = None \<and> ([]::pyval list) = []
             \<or> dict_get (data p) ''attachment'' = Some (PList [])"
    by simp
  from add_attachments_list [OF this, of atts] h
  show "\<exists>p'. add_attachments p atts = Inr p'
           \<and> dict_get (data p') ''attachment'' = Some (PList (map att_entry atts))
           \<and> unsupported p' = unsupported p @ map (\<lambda>a. ''inline attachments'') (filter inline atts)"
    by simp
next
  assume "\<not> ignore_unsupported_features q \<and> inline a"
  then show "add_attachment q a = Inl (AnymailUnsupportedFeature ''inline attachments'', q)"
    by (simp add: add_attachment_def unsupported_feature_def)
qed

theorem add_attachment_appends_witness:
  "(dict_get (data (init_payload False True)) ''attachment'' = None
    \<and> [\<lparr>name = Some ''logo.png'', b64content = ''aGk='', inline = True\<rparr>,
        \<lparr>name = None, b64content = ''eW8='', inline = False\<rparr>] \<noteq> []
    \<and> ignore_unsupported_features (init_payload False True))
   \<and> (\<exists>p'. add_attachments (init_payload False True)
              [\<lparr>name = Some ''logo.png'', b64content = ''aGk='', inline = True\<rparr>,
               \<lparr>name = None, b64content = ''eW8='', inline = False\<rparr>] = Inr p'
         \<and> dict_get (data p') ''attachment''
             = Some (PList [PDict [(''name'', PStr ''logo.png''), (''content'', PStr ''aGk='')],
                            PDict [(''name'', PStr []), (''content'', PStr ''eW8='')]])
         \<and> unsupported p' = [''inline attachments''])
   \<and> (\<not> ignore_unsupported_features (init_payload False False)
    \<and> inline \<lparr>name = Some ''logo.png'', b64content = ''aGk='', inline = True\<rparr>)
   \<and> add_attachment (init_payload False False)
        \<lparr>name = Some ''logo.png'', b64content = ''aGk='', inline = True\<rparr>
       = Inl (AnymailUnsupportedFeature ''inline attachments'', init_payload False False)"
  using add_attachment_appends [of "init_payload False True"
      "[\<lparr>name = Some ''logo.png'', b64content = ''aGk='', inline = True\<rparr>,
        \<lparr>name = None, b64content = ''eW8='', inline = False\<rparr>]"
      "init_payload False False"
      "\<lparr>name = Some ''logo.png'', b64content = ''aGk='', inline = True\<rparr>"]
  by (simp add: init_payload_def dict_get_def att_entry_def)

text \<open>With the signal raised, the inline attachment is not appended: the exception leaves
  the call with the payload as \<open>init_payload\<close> made it, which has no "attachment" key.\<close>

theorem add_attachment_inline_counterexample:
  "add_attachment (init_payload False False)
       \<lparr>name = Some ''logo.png'', b64content = ''aGk='', inline = True\<rparr>
     = Inl (AnymailUnsupportedFeature ''inline attachments'',
            \<lparr>data = [(''headers'', PCIDict [])], merge_data = [], metadata = [],
             merge_metadata = [], all_recipients = [], to_recipients = [],
             is_batch = False, ignore_unsupported_features = False, unsupported = []\<rparr>)"
  by (simp add: add_attachment_def unsupported_feature_def init_payload_def dict_get_def)

section \<open>Scheduled sends\<close>

text \<open>
  Claim C8, as amended. When \<open>send_at.isoformat(timespec="milliseconds")\<close> returns a
  string, that string is stored as \<open>data["scheduledAt"]\<close>. When the call raises
  AttributeError or TypeError, the value is stored unchanged: that is so for every value
  without an \<open>isoformat\<close> method (a pre-formatted string among them), and also for a value
  that has the method but whose call with \<open>timespec\<close> raises TypeError. Any other exception
  of the call leaves \<open>set_send_at\<close>.
\<close>

theorem set_send_at_isoformat:
  "(call_isoformat isoformat_of v ''milliseconds'' = Inr s
     \<longrightarrow> set_send_at isoformat_of p v = Inr (p\<lparr>data := dict_set (data p) ''scheduledAt'' (PStr s)\<rparr>))
   \<and> (call_isoformat isoformat_of v ''milliseconds'' = Inl AttributeError
       \<or> call_isoformat isoformat_of v ''milliseconds'' = Inl TypeError
     \<longrightarrow> set_send_at isoformat_of p v = Inr (p\<lparr>data := dict_set (data p) ''scheduledAt'' v\<rparr>))
   \<and> (\<not> supports_isoformat isoformat_of v
     \<longrightarrow> set_send_at isoformat_of p v = Inr (p\<lparr>data := dict_set (data p) ''scheduledAt'' v\<rparr>))
   \<and> (call_isoformat isoformat_of v ''milliseconds'' = Inl e \<and> e \<noteq> AttributeError \<and> e \<noteq> TypeError
     \<longrightarrow> set_send_at isoformat_of p v = Inl (PyExc e))"
proof -
  have "call_isoformat isoformat_of v ''milliseconds'' = Inl AttributeError"
    if "\<not> supports_isoformat isoformat_of v"
    using that by (cases v) auto
  then show ?thesis by (auto simp: set_send_at_def)
qed

theorem set_send_at_isoformat_witness:
  "call_isoformat sample_isoformat (PObj 0) ''milliseconds'' = Inr ''2030-05-01T09:30:00.000+00:00''
   \<and> set_send_at sample_isoformat (init_payload False False) (PObj 0)
      = Inr ((init_payload False False)
               \<lparr>data := [(''headers'', PCIDict []),
                         (''scheduledAt'', PStr ''2030-05-01T09:30:00.000+00:00'')]\<rparr>)
   \<and> \<not> supports_isoformat sample_isoformat (PStr ''2030-05-01T09:30:00Z'')
   \<and> call_isoformat sample_isoformat (PStr ''2030-05-01T09:30:00Z'') ''milliseconds''
      = Inl AttributeError
   \<and> set_send_at sample_isoformat (init_payload False False) (PStr ''2030-05-01T09:30:00Z'')
      = Inr ((init_payload False False)
               \<lparr>data := [(''headers'', PCIDict []),
                         (''scheduledAt'', PStr ''2030-05-01T09:30:00Z'')]\<rparr>)
   \<and> call_isoformat sample_isoformat (PObj 2) ''milliseconds'' = Inl ValueError
   \<and> ValueError \<noteq> AttributeError \<and> ValueError \<noteq> TypeError
   \<and> set_send_at sample_isoformat (init_payload False False) (PObj 2) = Inl (PyExc ValueError)"
  using set_send_at_isoformat [of sample_isoformat "PObj 0" "''2030-05-01T09:30:00.000+00:00''"
      "init_payload False False" ValueError]
    set_send_at_isoformat [of sample_isoformat "PStr ''2030-05-01T09:30:00Z''" "[]"
      "init_payload False False" ValueError]
    set_send_at_isoformat [of sample_isoformat "PObj 2" "[]"
      "init_payload False False" ValueError]
  by (simp add: sample_isoformat_def init_payload_def)

text \<open>A date supports \<open>isoformat\<close>, but its rendering is not what is stored: the call with
  \<open>timespec\<close> raises TypeError and the date object itself is stored.\<close>

theorem set_send_at_date_counterexample:
  "supports_isoformat sample_isoformat (PObj 1)
   \<and> set_send_at sample_isoformat (init_payload False False) (PObj 1)
      = Inr ((init_payload False False)
               \<lparr>data := [(''headers'', PCIDict []), (''scheduledAt'', PObj 1)]\<rparr>)"
  by (simp add: set_send_at_def sample_isoformat_def init_payload_def)

section \<open>Recipient status\<close>

lemma getitem_present: "contains_key v k \<longleftrightarrow> (\<exists>x. py_getitem v k = Inr x)"
proof (cases v)
  case (PDict d)
  have "k \<in> fst ` set d \<longleftrightarrow> map_of d k \<noteq> None" by (simp add: map_of_eq_None_iff)
  then show ?thesis using PDict by (auto simp: dict_get_def split: option.splits)
next
  case (PCIDict d)
  let ?l = "map (\<lambda>kv. (lower (fst kv), snd kv)) d"
  have "lower k \<in> fst ` set ?l \<longleftrightarrow> map_of ?l (lower k) \<noteq> None"
    by (simp only: map_of_eq_None_iff not_not)
  moreover have "fst ` set ?l = (\<lambda>kv. lower (fst kv)) ` set d" by force
  ultimately show ?thesis using PCIDict by (auto simp: ci_get_def split: option.splits)
qed simp_all

lemma getitem_absent:
  "\<not> contains_key v k \<Longrightarrow> py_getitem v k = Inl KeyError \<or> py_getitem v k = Inl TypeError"
  using getitem_present [of v k] by (cases v) (auto split: option.splits)

lemma status_queued: "hashable mid \<Longrightarrow>
    AnymailRecipientStatus mid ''queued'' = Inr \<lparr>message_id = mid, status = ''queued''\<rparr>"
  by (simp add: AnymailRecipientStatus_def)

lemma status_raises: "\<not> hashable mid \<Longrightarrow> AnymailRecipientStatus mid ''queued'' = Inl TypeError"
  by (simp add: AnymailRecipientStatus_def)

lemma uncaught_not_api_error: "\<not> api_format_error (Inl (Uncaught e))"
  by simp

lemma default_status_lookup:
  "dict_get (default_status st rs rcpts) k =
     (if k \<in> addr_spec ` set rcpts then Some st else dict_get rs k)"
  by (induction rcpts arbitrary: rs) (auto simp: dict_get_set)

lemma default_status_keys:
  "fst ` set (default_status st rs rcpts) = fst ` set rs \<union> addr_spec ` set rcpts"
  by (induction rcpts arbitrary: rs) (auto simp: keys_dict_set)

lemma zip_status_total:
  "\<forall>pr \<in> set pairs. hashable (snd pr) \<Longrightarrow> \<exists>rs'. zip_status rs pairs = Inr rs'"
  by (induction rs pairs rule: zip_status.induct) (auto simp: status_queued)

lemma zip_status_unhashable:
  "\<exists>pr \<in> set pairs. \<not> hashable (snd pr) \<Longrightarrow> zip_status rs pairs = Inl TypeError"
proof (induction rs pairs rule: zip_status.induct)
  case (1 rs)
  then show ?case by simp
next
  case (2 rs to mid pairs)
  show ?case
  proof (cases "hashable mid")
    case True
    then have "\<exists>pr \<in> set pairs. \<not> hashable (snd pr)" using "2.prems" by auto
    then show ?thesis using True "2.IH" by (simp add: status_queued)
  next
    case False
    then show ?thesis by (simp add: status_raises)
  qed
qed

lemma zip_status_other:
  "zip_status rs pairs = Inr rs' \<Longrightarrow> k \<notin> (\<lambda>pr. addr_spec (fst pr)) ` set pairs
    \<Longrightarrow> dict_get rs' k = dict_get rs k"
proof (induction rs pairs rule: zip_status.induct)
  case (1 rs)
  then show ?case by simp
next
  case (2 rs to mid pairs)
  then obtain st where st: "AnymailRecipientStatus mid ''queued'' = Inr st"
    and rest: "zip_status (dict_set rs (addr_spec to) st) pairs = Inr rs'"
    by (auto split: sum.splits)
  from "2.IH" [OF st rest] "2.prems"(2) show ?case by (simp add: dict_get_set)
qed

text \<open>The status of an address after the loop is the one of its last pair.\<close>

lemma zip_status_last:
  "zip_status rs pairs = Inr rs' \<Longrightarrow> i < length pairs
    \<Longrightarrow> \<forall>j. i < j \<and> j < length pairs \<longrightarrow> addr_spec (fst (pairs ! j)) \<noteq> addr_spec (fst (pairs ! i))
    \<Longrightarrow> dict_get rs' (addr_spec (fst (pairs ! i)))
          = Some \<lparr>message_id = snd (pairs ! i), status = ''queued''\<rparr>"
proof (induction rs pairs arbitrary: i rule: zip_status.induct)
  case (1 rs)
  then show ?case by simp
next
  case (2 rs to mid pairs)
  then obtain st where st: "AnymailRecipientStatus mid ''queued'' = Inr st"
    and rest: "zip_status (dict_set rs (addr_spec to) st) pairs = Inr rs'"
    by (auto split: sum.splits)
  have stv: "st = \<lparr>message_id = mid, status = ''queued''\<rparr>"
    using st by (auto simp: AnymailRecipientStatus_def split: if_splits)
  show ?case
  proof (cases i)
    case 0
    have "addr_spec to \<notin> (\<lambda>pr. addr_spec (fst pr)) ` set pairs"
    proof
      assume "addr_spec to \<in> (\<lambda>pr. addr_spec (fst pr)) ` set pairs"
      then obtain j where j: "j < length pairs" "addr_spec (fst (pairs ! j)) = addr_spec to"
        by (auto simp: in_set_conv_nth)
      from "2.prems"(3) [rule_format, of "Suc j"] 0 j show False by simp
    qed
    from zip_status_other [OF rest this] 0 stv show ?thesis by (simp add: dict_get_set)
  next
    case (Suc i')
    have lt: "i' < length pairs" using "2.prems"(2) Suc by simp
    have later: "\<forall>j. i' < j \<and> j < length pairs
        \<longrightarrow> addr_spec (fst (pairs ! j)) \<noteq> addr_spec (fst (pairs ! i'))"
    proof (intro allI impI)
      fix j assume "i' < j \<and> j < length pairs"
      with "2.prems"(3) [rule_format, of "Suc j"] Suc
      show "addr_spec (fst (pairs ! j)) \<noteq> addr_spec (fst (pairs ! i'))" by simp
    qed
    from "2.IH" [OF st rest lt later] Suc show ?thesis by simp
  qed
qed

lemma status_mapping_single:
  "hashable mid \<Longrightarrow> \<not> truthy mids
    \<Longrightarrow> status_mapping p mid mids
          = Inr (default_status \<lparr>message_id = mid, status = ''queued''\<rparr> [] (all_recipients p))"
  by (simp add: status_mapping_def status_queued)

lemma status_mapping_unhashable:
  "\<not> hashable mid \<Longrightarrow> status_mapping p mid mids = Inl (Uncaught TypeError)"
  by (simp add: status_mapping_def status_raises)

lemma status_mapping_not_api_error: "\<not> api_format_error (status_mapping p mid mids)"
  by (simp add: status_mapping_def Let_def split: sum.splits)

lemma status_mapping_list:
  assumes "zip_status (default_status \<lparr>message_id = PNone, status = ''queued''\<rparr> [] (all_recipients p))
             (zip (to_recipients p) ids) = Inr rs'"
  shows "status_mapping p PNone (PList ids) = Inr rs'"
proof (cases ids)
  case Nil
  then show ?thesis using assms by (simp add: status_mapping_def status_queued)
next
  case (Cons x xs)
  then show ?thesis using assms by (simp add: status_mapping_def status_queued)
qed

lemma response_ids_empty:
  "content resp = [] \<Longrightarrow> response_ids d self resp p message = Inr (PNone, PList [])"
  by (simp add: response_ids_def)

text \<open>
  Claim C4. When the response body is empty, \<open>parse_recipient_status\<close> returns a mapping
  whose keys are the addresses of \<open>payload.all_recipients\<close>, and every recipient has status
  "queued" with message id None.
\<close>

theorem empty_body_all_queued:
  assumes "content resp = []"
  shows "\<exists>rs. parse_recipient_status d self resp p message = Inr rs
          \<and> fst ` set rs = addr_spec ` set (all_recipients p)
          \<and> (\<forall>r \<in> set (all_recipients p).
                dict_get rs (addr_spec r) = Some \<lparr>message_id = PNone, status = ''queued''\<rparr>)"
  proof -
  have "parse_recipient_status d self resp p message
          = Inr (default_status \<lparr>message_id = PNone, status = ''queued''\<rparr> [] (all_recipients p))"
    using assms
    by (simp add: parse_recipient_status_def response_ids_empty status_mapping_single)
  then show ?thesis by (simp add: default_status_lookup default_status_keys)
qed

theorem empty_body_all_queued_witness:
  "content \<lparr>content = []\<rparr> = []
   \<and> (\<exists>rs. parse_recipient_status (\<lambda>r q m. Inl (Uncaught ValueError)) sample_backend
              \<lparr>content = []\<rparr> sample_payload () = Inr rs
         \<and> fst ` set rs = addr_spec ` set (all_recipients sample_payload)
         \<and> (\<forall>r \<in> set (all_recipients sample_payload).
               dict_get rs (addr_spec r) = Some \<lparr>message_id = PNone, status = ''queued''\<rparr>))"
  using empty_body_all_queued [of "\<lparr>content = []\<rparr>" "\<lambda>r q m. Inl (Uncaught ValueError)"
      "sample_backend" "sample_payload" "()"]
  by simp

text \<open>
  Claim C9, as amended. When the parsed body has both "messageId" and "messageIds", the
  result is the one for a body that has "messageId" alone: "messageIds" is not used. When
  the "messageId" value is a scalar (None, a string, a number), every recipient of
  \<open>all_recipients\<close> gets it with status "queued"; when it is an array or an object, the
  status constructor raises TypeError and no mapping is returned.
\<close>

theorem message_id_wins:
  assumes "content resp \<noteq> []"
    and "d resp p message = Inr parsed"
    and "py_getitem parsed ''messageId'' = Inr mid"
    and "py_getitem parsed ''messageIds'' = Inr mids"
  shows "parse_recipient_status d self resp p message
           = parse_recipient_status (\<lambda>r q m. Inr (PDict [(''messageId'', mid)])) self resp p message
         \<and> (hashable mid \<longrightarrow>
              (\<exists>rs. parse_recipient_status d self resp p message = Inr rs
                 \<and> fst ` set rs = addr_spec ` set (all_recipients p)
                 \<and> (\<forall>r \<in> set (all_recipients p).
                       dict_get rs (addr_spec r) = Some \<lparr>message_id = mid, status = ''queued''\<rparr>)))
         \<and> (\<not> hashable mid \<longrightarrow>
              parse_recipient_status d self resp p message = Inl (Uncaught TypeError))"
proof -
  have alone: "py_getitem (PDict [(''messageId'', mid)]) ''messageId'' = Inr mid"
    by (simp add: dict_get_def)
  have "response_ids d self resp p message = Inr (mid, PList [])"
    using assms(1-3) by (simp add: response_ids_def)
  then have r: "parse_recipient_status d self resp p message = status_mapping p mid (PList [])"
    by (simp add: parse_recipient_status_def)
  have "response_ids (\<lambda>r q m. Inr (PDict [(''messageId'', mid)])) self resp p message
          = Inr (mid, PList [])"
    using assms(1) alone by (simp add: response_ids_def)
  then have r': "parse_recipient_status (\<lambda>r q m. Inr (PDict [(''messageId'', mid)])) self resp p message
              = status_mapping p mid (PList [])"
    by (simp add: parse_recipient_status_def)
  have scalar: "\<exists>rs. parse_recipient_status d self resp p message = Inr rs
                 \<and> fst ` set rs = addr_spec ` set (all_recipients p)
                 \<and> (\<forall>r \<in> set (all_recipients p).
                       dict_get rs (addr_spec r) = Some \<lparr>message_id = mid, status = ''queued''\<rparr>)"
    if "hashable mid"
    using that by (simp add: r status_mapping_single default_status_lookup default_status_keys)
  have other: "parse_recipient_status d self resp p message = Inl (Uncaught TypeError)"
    if "\<not> hashable mid"
    using that by (simp add: r status_mapping_unhashable)
  show ?thesis using r r' scalar other by simp
qed

theorem message_id_wins_witness:
  "content sample_response \<noteq> []
   \<and> py_getitem (PDict [(''messageId'', PStr ''m1''), (''messageIds'', PList [PStr ''x'', PStr ''y''])])
        ''messageId'' = Inr (PStr ''m1'')
   \<and> py_getitem (PDict [(''messageId'', PStr ''m1''), (''messageIds'', PList [PStr ''x'', PStr ''y''])])
        ''messageIds'' = Inr (PList [PStr ''x'', PStr ''y''])
   \<and> hashable (PStr ''m1'')
   \<and> parse_recipient_status
        (\<lambda>r q m. Inr (PDict [(''messageId'', PStr ''m1''),
                             (''messageIds'', PList [PStr ''x'', PStr ''y''])]))
        sample_backend sample_response sample_payload ()
      = parse_recipient_status (\<lambda>r q m. Inr (PDict [(''messageId'', PStr ''m1'')]))
          sample_backend sample_response sample_payload ()
   \<and> (\<exists>rs. parse_recipient_status
              (\<lambda>r q m. Inr (PDict [(''messageId'', PStr ''m1''),
                                   (''messageIds'', PList [PStr ''x'', PStr ''y''])]))
              sample_backend sample_response sample_payload () = Inr rs
         \<and> fst ` set rs = addr_spec ` set (all_recipients sample_payload)
         \<and> (\<forall>r \<in> set (all_recipients sample_payload).
               dict_get rs (addr_spec r) = Some \<lparr>message_id = PStr ''m1'', status = ''queued''\<rparr>))"
proof -
  have 1: "py_getitem (PDict [(''messageId'', PStr ''m1''), (''messageIds'', PList [PStr ''x'', PStr ''y''])])
        ''messageId'' = Inr (PStr ''m1'')"
    by (simp add: dict_get_def)
  have 2: "py_getitem (PDict [(''messageId'', PStr ''m1''), (''messageIds'', PList [PStr ''x'', PStr ''y''])])
        ''messageIds'' = Inr (PList [PStr ''x'', PStr ''y''])"
    by (simp add: dict_get_def)
  have 0: "content sample_response \<noteq> []" by (simp add: sample_defs)
  have 3: "hashable (PStr ''m1'')" by simp
  from message_id_wins [OF 0 _ 1 2,
      of "\<lambda>r q m. Inr (PDict [(''messageId'', PStr ''m1''),
                                   (''messageIds'', PList [PStr ''x'', PStr ''y''])])"
         "sample_payload" "()" "sample_backend"]
    0 1 2 3
  show ?thesis by blast
qed

text \<open>A "messageId" that is an array: the status constructor raises TypeError, and no
  recipient gets the value.\<close>

theorem message_id_wins_counterexample:
  "parse_recipient_status
     (\<lambda>r q m. Inr (PDict [(''messageId'', PList [PStr ''m1'']),
                          (''messageIds'', PList [PStr ''x'', PStr ''y''])]))
     sample_backend sample_response sample_payload ()
   = Inl (Uncaught TypeError)"
  by (simp add: parse_recipient_status_def response_ids_def status_mapping_def
      AnymailRecipientStatus_def dict_get_def sample_defs)

text \<open>
  Claim C5. For a response whose body, when not empty, is parsed to a JSON value,
  \<open>parse_recipient_status\<close> raises \<open>AnymailRequestsAPIError\<close> if and only if the body is
  not empty and the parsed value contains neither the key "messageId" nor the key
  "messageIds"; the error raised carries the message, the payload and the response.
\<close>

theorem api_format_error_iff:
  assumes "content resp \<noteq> [] \<longrightarrow> d resp p message = Inr parsed"
  shows "(api_format_error (parse_recipient_status d self resp p message)
           \<longleftrightarrow> content resp \<noteq> [] \<and> \<not> contains_key parsed ''messageId''
                 \<and> \<not> contains_key parsed ''messageIds'')
         \<and> (api_format_error (parse_recipient_status d self resp p message)
           \<longrightarrow> parse_recipient_status d self resp p message
                 = Inl (AnymailRequestsAPIError ''Invalid SendinBlue API response format''
                          message p resp self))"
proof (cases "content resp = []")
  case True
  then show ?thesis
    by (simp add: parse_recipient_status_def response_ids_empty status_mapping_not_api_error)
next
  case False
  then have d: "d resp p message = Inr parsed" using assms by simp
  show ?thesis
  proof (cases "contains_key parsed ''messageId''")
    case True
    then obtain x where "py_getitem parsed ''messageId'' = Inr x" by (auto simp: getitem_present)
    then have "response_ids d self resp p message = Inr (x, PList [])"
      using False d by (simp add: response_ids_def)
    then show ?thesis using True
      by (simp add: parse_recipient_status_def status_mapping_not_api_error)
  next
    case noid: False
    show ?thesis
    proof (cases "contains_key parsed ''messageIds''")
      case True
      then obtain x where "py_getitem parsed ''messageIds'' = Inr x" by (auto simp: getitem_present)
      then have "response_ids d self resp p message = Inr (PNone, x)"
        using False d getitem_absent [OF noid] by (auto simp: response_ids_def)
      then show ?thesis using True
        by (simp add: parse_recipient_status_def status_mapping_not_api_error)
    next
      case noids: False
      have "response_ids d self resp p message
              = Inl (AnymailRequestsAPIError ''Invalid SendinBlue API response format'' message p resp self)"
        using False d getitem_absent [OF noid] getitem_absent [OF noids]
        by (auto simp: response_ids_def)
      then show ?thesis using False noid noids
        by (simp add: parse_recipient_status_def)
    qed
  qed
qed

theorem api_format_error_iff_witness:
  "content sample_response \<noteq> []
   \<and> api_format_error (parse_recipient_status (\<lambda>r q m. Inr (PDict [(''foo'', PStr ''bar'')]))
        sample_backend sample_response sample_payload ())
   \<and> \<not> contains_key (PDict [(''foo'', PStr ''bar'')]) ''messageId''
   \<and> \<not> contains_key (PDict [(''foo'', PStr ''bar'')]) ''messageIds''
   \<and> parse_recipient_status (\<lambda>r q m. Inr (PDict [(''foo'', PStr ''bar'')]))
        sample_backend sample_response sample_payload ()
      = Inl (AnymailRequestsAPIError ''Invalid SendinBlue API response format''
               () sample_payload sample_response sample_backend)"
  using api_format_error_iff [of sample_response
      "\<lambda>r q m. Inr (PDict [(''foo'', PStr ''bar'')])" "sample_payload" "()"
      "PDict [(''foo'', PStr ''bar'')]" "sample_backend"]
  by (simp add: sample_defs)

text \<open>
  Claim C2, as amended. The result is a mapping keyed by address. When the parsed body lacks
  "messageId" and has a "messageIds" array whose ids at the positions covered by
  \<open>to_recipients\<close> are scalars (the status constructor raises TypeError for an id that is an
  array or an object), \<open>parse_recipient_status\<close> returns a mapping in which
  every recipient of \<open>all_recipients\<close> whose address is not one of the covered
  to-addresses (a cc or bcc address, a to-address beyond the length of the array) keeps
  status "queued" with message id None, and the i-th to-address gets the i-th id with
  status "queued" unless a later covered position holds the same address: an address
  that occurs more than once has the id of its last covered position.
\<close>

theorem message_ids_zip:
  assumes "content resp \<noteq> []"
    and "d resp p message = Inr parsed"
    and "\<not> contains_key parsed ''messageId''"
    and "py_getitem parsed ''messageIds'' = Inr (PList ids)"
    and "\<forall>x \<in> set (take (length (to_recipients p)) ids). hashable x"
  shows "\<exists>rs. parse_recipient_status d self resp p message = Inr rs
          \<and> (\<forall>r \<in> set (all_recipients p).
                addr_spec r \<notin> addr_spec ` set (take (length ids) (to_recipients p))
                \<longrightarrow> dict_get rs (addr_spec r) = Some \<lparr>message_id = PNone, status = ''queued''\<rparr>)
          \<and> (\<forall>i < min (length (to_recipients p)) (length ids).
                (\<forall>j. i < j \<and> j < min (length (to_recipients p)) (length ids)
                      \<longrightarrow> addr_spec (to_recipients p ! j) \<noteq> addr_spec (to_recipients p ! i))
                \<longrightarrow> dict_get rs (addr_spec (to_recipients p ! i))
                      = Some \<lparr>message_id = ids ! i, status = ''queued''\<rparr>)"
proof -
  let ?st = "\<lparr>message_id = PNone, status = ''queued''\<rparr>"
  let ?rs0 = "default_status ?st [] (all_recipients p)"
  let ?pairs = "zip (to_recipients p) ids"
  have "snd ` set ?pairs \<subseteq> set (take (length (to_recipients p)) ids)"
    by (metis list.set_map map_snd_zip_take set_take_subset_set_take min.cobounded1)
  then have "\<forall>pr \<in> set ?pairs. hashable (snd pr)" using assms(5) by auto
  from zip_status_total [OF this] obtain rs' where zs: "zip_status ?rs0 ?pairs = Inr rs'"
    by blast
  have "response_ids d self resp p message = Inr (PNone, PList ids)"
    using assms(1-4) getitem_absent [OF assms(3)] by (auto simp: response_ids_def)
  then have res: "parse_recipient_status d self resp p message = Inr rs'"
    by (simp add: parse_recipient_status_def status_mapping_list [OF zs])
  have keys: "(\<lambda>pr. addr_spec (fst pr)) ` set ?pairs
                = addr_spec ` set (take (length ids) (to_recipients p))"
  proof -
    have "map fst ?pairs = take (length ids) (to_recipients p)"
      by (simp add: map_fst_zip_take min_def)
    then have "fst ` set ?pairs = set (take (length ids) (to_recipients p))"
      by (metis list.set_map)
    then show ?thesis by (metis image_image)
  qed
  have miss: "dict_get rs' (addr_spec r) = Some ?st"
    if "r \<in> set (all_recipients p)"
      "addr_spec r \<notin> addr_spec ` set (take (length ids) (to_recipients p))" for r
    using zip_status_other [OF zs, of "addr_spec r"] that keys
    by (simp add: default_status_lookup)
  have hit: "dict_get rs' (addr_spec (to_recipients p ! i))
                  = Some \<lparr>message_id = ids ! i, status = ''queued''\<rparr>"
    if i: "i < min (length (to_recipients p)) (length ids)"
      and later: "\<forall>j. i < j \<and> j < min (length (to_recipients p)) (length ids)
                      \<longrightarrow> addr_spec (to_recipients p ! j) \<noteq> addr_spec (to_recipients p ! i)" for i
  proof -
    have len: "length ?pairs = min (length (to_recipients p)) (length ids)" by simp
    have "\<forall>j. i < j \<and> j < length ?pairs
            \<longrightarrow> addr_spec (fst (?pairs ! j)) \<noteq> addr_spec (fst (?pairs ! i))"
      using later i by simp
    from zip_status_last [OF zs _ this] i show ?thesis by simp
  qed
  show ?thesis using res hit miss by blast
qed

theorem message_ids_zip_witness:
  "content sample_response \<noteq> []
   \<and> \<not> contains_key (PDict [(''messageIds'', PList [PStr ''x''])]) ''messageId''
   \<and> py_getitem (PDict [(''messageIds'', PList [PStr ''x''])]) ''messageIds''
        = Inr (PList [PStr ''x''])
   \<and> hashable (PStr ''x'')
   \<and> (\<exists>rs. parse_recipient_status (\<lambda>r q m. Inr (PDict [(''messageIds'', PList [PStr ''x''])]))
              sample_backend sample_response sample_payload () = Inr rs
         \<and> dict_get rs ''a@example.com'' = Some \<lparr>message_id = PStr ''x'', status = ''queued''\<rparr>
         \<and> dict_get rs ''b@example.com'' = Some \<lparr>message_id = PNone, status = ''queued''\<rparr>
         \<and> dict_get rs ''c@example.com'' = Some \<lparr>message_id = PNone, status = ''queued''\<rparr>)"
proof -
  have 0: "content sample_response \<noteq> []" by (simp add: sample_defs)
  have 1: "\<not> contains_key (PDict [(''messageIds'', PList [PStr ''x''])]) ''messageId''" by simp
  have 2: "py_getitem (PDict [(''messageIds'', PList [PStr ''x''])]) ''messageIds''
        = Inr (PList [PStr ''x''])"
    by (simp add: dict_get_def)
  have 3: "\<forall>x \<in> set (take (length (to_recipients sample_payload)) [PStr ''x'']). hashable x"
    by (simp add: sample_defs)
  from message_ids_zip [OF 0 _ 1 2 3,
      of "\<lambda>r q m. Inr (PDict [(''messageIds'', PList [PStr ''x''])])" "()" "sample_backend"]
    0 1 2
  show ?thesis by (auto simp: sample_defs)
qed

text \<open>Two "to" recipients with the same address and two ids: the mapping has one entry for
  the address, with the second id; the first to-address does not get the first id. And an
  id that is an array: the status constructor raises TypeError, and no id is assigned.\<close>

theorem message_ids_zip_counterexample:
  "parse_recipient_status (\<lambda>r q m. Inr (PDict [(''messageIds'', PList [PStr ''x'', PStr ''y''])]))
     sample_backend sample_response
     ((init_payload True False)\<lparr>all_recipients := [alice, alice], to_recipients := [alice, alice]\<rparr>) ()
   = Inr [(''a@example.com'', \<lparr>message_id = PStr ''y'', status = ''queued''\<rparr>)]
   \<and> parse_recipient_status
       (\<lambda>r q m. Inr (PDict [(''messageIds'', PList [PList [PStr ''x''], PStr ''y''])]))
       sample_backend sample_response sample_payload ()
     = Inl (Uncaught TypeError)"
  by (simp add: parse_recipient_status_def response_ids_def status_mapping_def
      AnymailRecipientStatus_def dict_get_def sample_defs)

section \<open>Serialization\<close>

lemma map_result_Inr:
  "map_result f xs = Inr ys \<Longrightarrow> length ys = length xs \<and> (\<forall>i < length xs. f (xs ! i) = Inr (ys ! i))"
proof (induction xs arbitrary: ys)
  case Nil
  then show ?case by simp
next
  case (Cons x xs)
  then obtain y ys' where y: "f x = Inr y" "map_result f xs = Inr ys'" "ys = y # ys'"
    by (auto split: sum.splits)
  from Cons.IH [OF y(2)] y show ?case by (auto simp: nth_Cons split: nat.splits)
qed

lemma map_result_total:
  "(\<forall>x \<in> set xs. \<exists>y. f x = Inr y) \<Longrightarrow> \<exists>ys. map_result f xs = Inr ys"
  by (induction xs) auto

lemma message_version_base:
  assumes "message_version p to = Inr v"
  shows "\<exists>em r. py_getitem to ''email'' = Inr em \<and> py_dict_get (merge_data p) em = Inr r
           \<and> v = PDict (version_base to r)"
  using assms by (auto simp: message_version_def split: sum.splits)

lemma version_headers_Inr:
  assumes "version_headers sj p (PDict [(''to'', PList [to]), (''params'', x)]) = Inr v'"
    and "py_getitem to ''email'' = Inr em"
  shows "\<exists>r. py_dict_get (merge_metadata p) em = Inr r \<and>
           (case r of
              None \<Rightarrow> v' = PDict [(''to'', PList [to]), (''params'', x)]
            | Some rm \<Rightarrow> (\<exists>s. sj (PDict (dict_update (metadata p) rm)) = Inr s
                  \<and> v' = PDict [(''to'', PList [to]), (''params'', x),
                                (''headers'', PDict [(''X-Mailin-custom'', PStr s)])]))"
  using assms
  by (auto simp: version_headers_def dict_get_def split: sum.splits option.splits)

lemma burst_to_Inr:
  assumes "burst_to sj p = Inr d"
  shows "\<exists>tos vs vs'. py_iter (data_to p) = Inr tos
           \<and> map_result (message_version p) tos = Inr vs
           \<and> (if merge_metadata p \<noteq> [] then map_result (version_headers sj p) vs else Inr vs) = Inr vs'
           \<and> d = dict_set (dict_del (data p) ''to'') ''messageVersions'' (PList vs')"
proof -
  let ?mm = "\<lambda>vs. if merge_metadata p \<noteq> [] then map_result (version_headers sj p) vs else Inr vs"
  have b: "burst_to sj p =
     (case py_iter (data_to p) of
        Inl e \<Rightarrow> Inl (PyExc e)
      | Inr to_list \<Rightarrow>
      (case map_result (message_version p) to_list of
        Inl e \<Rightarrow> Inl e
      | Inr versions \<Rightarrow>
      (case ?mm versions of
        Inl e \<Rightarrow> Inl e
      | Inr versions' \<Rightarrow>
          Inr (dict_set (dict_del (data p) ''to'') ''messageVersions'' (PList versions')))))"
    unfolding burst_to_def ..
  obtain tos where tos: "py_iter (data_to p) = Inr tos"
    using assms by (cases "py_iter (data_to p)") (simp_all add: b)
  obtain vs where vs: "map_result (message_version p) tos = Inr vs"
    using assms by (cases "map_result (message_version p) tos") (simp_all add: b tos)
  obtain vs' where vs': "?mm vs = Inr vs'"
    using assms by (cases "?mm vs") (simp_all add: b tos vs del: if_split cong: if_cong)
  have "d = dict_set (dict_del (data p) ''to'') ''messageVersions'' (PList vs')"
    using assms vs' by (simp add: b tos vs)
  then show ?thesis using tos vs vs' by blast
qed

lemma serialize_data_Inr:
  assumes "serialize_data sj p = Inr (p', out)"
  shows "\<exists>d h. (if is_batch p then burst_to sj p else Inr (data p)) = Inr d
           \<and> dict_get d ''headers'' = Some h
           \<and> p' = p\<lparr>data := (if \<not> truthy h then dict_del d ''headers'' else d)\<rparr>
           \<and> sj (PDict (data p')) = Inr out"
proof -
  let ?b = "if is_batch p then burst_to sj p else Inr (data p)"
  obtain d where d: "?b = Inr d"
    using assms unfolding serialize_data_def by (cases ?b) simp_all
  obtain h where h: "dict_get d ''headers'' = Some h"
    using assms unfolding serialize_data_def d by (cases "dict_get d ''headers''") simp_all
  let ?d' = "if \<not> truthy h then dict_del d ''headers'' else d"
  obtain s where s: "sj (PDict ?d') = Inr s"
    using assms unfolding serialize_data_def d by (cases "sj (PDict ?d')") (simp_all add: h Let_def)
  have "p' = p\<lparr>data := ?d'\<rparr> \<and> out = s"
    using assms unfolding serialize_data_def d by (simp add: h Let_def s)
  then show ?thesis using d h s by auto
qed

lemma version_headers_base:
  assumes "version_headers sj p (PDict (version_base to r)) = Inr v'"
    and "py_getitem to ''email'' = Inr em"
  shows "\<exists>rr. py_dict_get (merge_metadata p) em = Inr rr \<and>
           (rr = None \<and> v' = PDict (version_base to r)
            \<or> (\<exists>rm s. rr = Some rm \<and> sj (PDict (dict_update (metadata p) rm)) = Inr s
                  \<and> v' = PDict (version_base to r @ [(''headers'', PDict [(''X-Mailin-custom'', PStr s)])])))"
proof -
  from version_headers_Inr [OF assms(1) [unfolded version_base_def] assms(2)]
  obtain rr where rr: "py_dict_get (merge_metadata p) em = Inr rr"
    and c: "(case rr of
              None \<Rightarrow> v' = PDict [(''to'', PList [to]), (''params'', (case r of None \<Rightarrow> PNone | Some x \<Rightarrow> x))]
            | Some rm \<Rightarrow> (\<exists>s. sj (PDict (dict_update (metadata p) rm)) = Inr s
                  \<and> v' = PDict [(''to'', PList [to]), (''params'', (case r of None \<Rightarrow> PNone | Some x \<Rightarrow> x)),
                                (''headers'', PDict [(''X-Mailin-custom'', PStr s)])]))"
    by blast
  show ?thesis
  proof (cases rr)
    case None
    then show ?thesis using rr c by (simp add: version_base_def)
  next
    case (Some rm)
    then show ?thesis using rr c by (simp add: version_base_def)
  qed
qed

text \<open>What one entry of messageVersions is, for the recipient entry it comes from.\<close>

lemma burst_entry:
  assumes "map_result (message_version p) tos = Inr vs"
    and "(if merge_metadata p \<noteq> [] then map_result (version_headers sj p) vs else Inr vs) = Inr vs'"
    and "i < length tos"
  shows "\<exists>em r. py_getitem (tos ! i) ''email'' = Inr em \<and> py_dict_get (merge_data p) em = Inr r
           \<and> (merge_metadata p = [] \<and> vs' ! i = PDict (version_base (tos ! i) r)
              \<or> merge_metadata p \<noteq> [] \<and>
                 (\<exists>rr. py_dict_get (merge_metadata p) em = Inr rr \<and>
                   (rr = None \<and> vs' ! i = PDict (version_base (tos ! i) r)
                    \<or> (\<exists>rm s. rr = Some rm \<and> sj (PDict (dict_update (metadata p) rm)) = Inr s
                         \<and> vs' ! i = PDict (version_base (tos ! i) r
                              @ [(''headers'', PDict [(''X-Mailin-custom'', PStr s)])])))))"
proof -
  from map_result_Inr [OF assms(1)] assms(3)
  have len: "length vs = length tos" and mv: "message_version p (tos ! i) = Inr (vs ! i)" by auto
  from message_version_base [OF mv] obtain em r where
    em: "py_getitem (tos ! i) ''email'' = Inr em" and r: "py_dict_get (merge_data p) em = Inr r"
    and vi: "vs ! i = PDict (version_base (tos ! i) r)"
    by blast
  show ?thesis
  proof (cases "merge_metadata p = []")
    case True
    then have "vs' = vs" using assms(2) by simp
    then show ?thesis using True em r vi by blast
  next
    case False
    then have mr: "map_result (version_headers sj p) vs = Inr vs'" using assms(2) by simp
    from map_result_Inr [OF mr] assms(3) len
    have vh: "version_headers sj p (vs ! i) = Inr (vs' ! i)" by auto
    from version_headers_base [OF vh [unfolded vi] em] False em r
    show ?thesis by blast
  qed
qed

lemma burst_length:
  assumes "map_result (message_version p) tos = Inr vs"
    and "(if merge_metadata p \<noteq> [] then map_result (version_headers sj p) vs else Inr vs) = Inr vs'"
  shows "length vs' = length tos"
proof (cases "merge_metadata p = []")
  case True
  then show ?thesis using assms map_result_Inr [OF assms(1)] by simp
next
  case False
  then have mr: "map_result (version_headers sj p) vs = Inr vs'" using assms(2) by simp
  from map_result_Inr [OF mr] map_result_Inr [OF assms(1)] show ?thesis by simp
qed

lemma version_base_items:
  "py_getitem (PDict (version_base to r)) ''to'' = Inr (PList [to])"
  "py_getitem (PDict (version_base to r)) ''params'' = Inr (case r of None \<Rightarrow> PNone | Some x \<Rightarrow> x)"
  "py_getitem (PDict (version_base to r)) ''headers'' = Inl KeyError"
  "py_getitem (PDict (version_base to r @ [(''headers'', h)])) ''to'' = Inr (PList [to])"
  "py_getitem (PDict (version_base to r @ [(''headers'', h)])) ''params''
     = Inr (case r of None \<Rightarrow> PNone | Some x \<Rightarrow> x)"
  "py_getitem (PDict (version_base to r @ [(''headers'', h)])) ''headers'' = Inr h"
  by (simp_all add: version_base_def dict_get_def)

lemma email_object_email: "py_getitem (email_object e) ''email'' = Inr (PStr (addr_spec e))"
  by (simp add: email_object_def dict_get_def)

lemma message_version_email_object:
  "message_version p (email_object e)
     = Inr (PDict (version_base (email_object e) (dict_get (merge_data p) (addr_spec e))))"
  by (simp add: message_version_def email_object_email del: py_getitem.simps)

lemma version_headers_email_object:
  assumes "\<forall>v. \<exists>s. sj v = Inr s"
  shows "\<exists>v'. version_headers sj p (PDict (version_base (email_object e) r)) = Inr v'"
proof -
  have a: "py_getitem (PDict (version_base (email_object e) r)) ''to'' = Inr (PList [email_object e])"
    by (rule version_base_items)
  have b: "py_index (PList [email_object e]) 0 = Inr (email_object e)" by simp
  have c: "py_dict_get (merge_metadata p) (PStr (addr_spec e))
             = Inr (dict_get (merge_metadata p) (addr_spec e))" by simp
  show ?thesis
  proof (cases "dict_get (merge_metadata p) (addr_spec e)")
    case None
    then show ?thesis
      unfolding version_headers_def by (simp add: a b c email_object_email del: py_getitem.simps)
  next
    case (Some rm)
    obtain s where s: "sj (PDict (dict_update (metadata p) rm)) = Inr s" using assms by blast
    show ?thesis
      unfolding version_headers_def
      by (simp add: a b c email_object_email Some s del: py_getitem.simps)
  qed
qed

lemma map_result_map:
  "(\<And>x. f (g x) = Inr (h x)) \<Longrightarrow> map_result f (map g xs) = Inr (map h xs)"
  by (induction xs) simp_all

lemma serialize_data_returns:
  assumes "dict_get (data p) ''to'' = None \<and> tos = []
             \<or> dict_get (data p) ''to'' = Some (PList (map email_object tos))"
    and "dict_get (data p) ''headers'' = Some h"
    and "\<forall>v. \<exists>s. sj v = Inr s"
  shows "\<exists>p' out. serialize_data sj p = Inr (p', out)"
proof -
  have d: "\<exists>d. (if is_batch p then burst_to sj p else Inr (data p)) = Inr d
              \<and> dict_get d ''headers'' = Some h"
  proof (cases "is_batch p")
    case False
    then show ?thesis using assms(2) by simp
  next
    case True
    let ?vs = "map (\<lambda>e. PDict (version_base (email_object e) (dict_get (merge_data p) (addr_spec e)))) tos"
    have it: "py_iter (data_to p) = Inr (map email_object tos)"
      using assms(1) by (auto simp: data_to_def)
    have vs: "map_result (message_version p) (map email_object tos) = Inr ?vs"
      by (rule map_result_map) (rule message_version_email_object)
    have "\<forall>v \<in> set ?vs. \<exists>v'. version_headers sj p v = Inr v'"
      using version_headers_email_object [OF assms(3)] by auto
    then obtain vs' where
      "(if merge_metadata p \<noteq> [] then map_result (version_headers sj p) ?vs else Inr ?vs) = Inr vs'"
      using map_result_total [of ?vs "version_headers sj p"] by (cases "merge_metadata p = []") auto
    then have "burst_to sj p = Inr (dict_set (dict_del (data p) ''to'') ''messageVersions'' (PList vs'))"
      unfolding burst_to_def by (simp add: it vs del: if_split cong: if_cong)
    then show ?thesis using True assms(2) by (simp add: dict_get_set dict_get_del)
  qed
  then obtain d where d1: "(if is_batch p then burst_to sj p else Inr (data p)) = Inr d"
    and d2: "dict_get d ''headers'' = Some h" by blast
  obtain s where "sj (PDict (if \<not> truthy h then dict_del d ''headers'' else d)) = Inr s"
    using assms(3) by blast
  then show ?thesis unfolding serialize_data_def by (simp add: d1 d2 Let_def del: if_split cong: if_cong)
qed

lemma set_metadata_header:
  assumes "dict_get (data p) ''headers'' = Some (PCIDict hs)" and "sj (PDict md) = Inr s"
  shows "\<exists>p'. set_metadata sj p md = Inr p' \<and> metadata p' = md
           \<and> dict_get (data p') ''headers'' = Some (PCIDict (ci_set hs ''X-Mailin-custom'' (PStr s)))"
  using assms by (simp add: set_metadata_def dict_get_set)

lemma ci_get_set: "ci_get (ci_set d k v) k = Some v"
  by (induction d) (auto simp: ci_get_def)

lemma sample_batch_built:
  "set_to_cc_bcc (init_payload True False) [alice, bob] [] []
     = Inr ((init_payload True False)
              \<lparr>data := [(''headers'', PCIDict []),
                        (''to'', PList [email_object alice, email_object bob])],
               all_recipients := [alice, bob], to_recipients := [alice, bob]\<rparr>)
   \<and> set_metadata sample_sj
        ((init_payload True False)
              \<lparr>data := [(''headers'', PCIDict []),
                        (''to'', PList [email_object alice, email_object bob])],
               all_recipients := [alice, bob], to_recipients := [alice, bob]\<rparr>)
        [(''order'', PInt 1)]
     = Inr ((init_payload True False)
              \<lparr>data := [(''headers'', PCIDict [(''X-Mailin-custom'', PStr ''{order: 1}'')]),
                        (''to'', PList [email_object alice, email_object bob])],
               metadata := [(''order'', PInt 1)],
               all_recipients := [alice, bob], to_recipients := [alice, bob]\<rparr>)
   \<and> set_merge_metadata
        (set_merge_data
           ((init_payload True False)
              \<lparr>data := [(''headers'', PCIDict [(''X-Mailin-custom'', PStr ''{order: 1}'')]),
                        (''to'', PList [email_object alice, email_object bob])],
               metadata := [(''order'', PInt 1)],
               all_recipients := [alice, bob], to_recipients := [alice, bob]\<rparr>)
           [(''a@example.com'', PDict [(''name'', PStr ''Alice'')])])
        [(''b@example.com'', [(''order'', PInt 2)])]
     = sample_batch"
  by (simp add: set_to_cc_bcc_def set_recipients_def set_metadata_def set_merge_data_def
      set_merge_metadata_def sample_batch_def sample_sj_def init_payload_def dict_get_def)

lemma sample_batch_sent:
  "serialize_data sample_sj sample_batch = Inr (sample_batch\<lparr>data := sample_sent\<rparr>, ''{...}'')"
  by (simp add: serialize_data_def burst_to_def message_version_def version_headers_def
        sample_batch_def sample_sent_def sample_sj_def sample_defs email_object_def
        dict_get_def dict_del_def data_to_def version_base_def Let_def)

lemma sample_batch_md_sent:
  "serialize_data sample_sj_md sample_batch_md
     = Inr (sample_batch_md\<lparr>data := sample_sent_md\<rparr>, ''{...}'')"
  by (simp add: serialize_data_def burst_to_def message_version_def version_headers_def
        sample_batch_md_def sample_sent_md_def sample_sj_md_def sample_defs email_object_def
        dict_get_def dict_del_def data_to_def version_base_def Let_def)

text \<open>
  Claim C1. Whenever \<open>serialize_data\<close> returns on a batch payload, the value popped from
  \<open>data["to"]\<close> was a list of recipient entries, \<open>data\<close> has no "to" key any more, and
  \<open>data["messageVersions"]\<close> is a list with one entry per recipient entry, in order. The
  entry for a recipient has "to" equal to the list holding just that recipient and "params"
  equal to \<open>merge_data.get\<close> of the recipient's email (None when merge_data has no entry
  for it); it has no other key unless the recipient has a metadata override, which adds
  "headers".
  By \<open>serialize_data_returns\<close> the call does return on a payload whose "to" was set by
  \<open>set_recipients\<close>, when serialization succeeds.
\<close>

theorem serialize_data_batch:
  assumes "is_batch p" and "serialize_data sj p = Inr (p', out)"
  shows "\<exists>tos mvs. py_iter (data_to p) = Inr tos
     \<and> dict_get (data p') ''to'' = None
     \<and> dict_get (data p') ''messageVersions'' = Some (PList mvs)
     \<and> length mvs = length tos
     \<and> (\<forall>i < length tos. \<exists>em r.
           py_getitem (tos ! i) ''email'' = Inr em \<and> py_dict_get (merge_data p) em = Inr r
           \<and> py_getitem (mvs ! i) ''to'' = Inr (PList [tos ! i])
           \<and> py_getitem (mvs ! i) ''params'' = Inr (case r of None \<Rightarrow> PNone | Some x \<Rightarrow> x)
           \<and> (merge_metadata p = [] \<or> py_dict_get (merge_metadata p) em = Inr None \<longrightarrow>
                mvs ! i = PDict [(''to'', PList [tos ! i]),
                                 (''params'', (case r of None \<Rightarrow> PNone | Some x \<Rightarrow> x))]))"
proof -
  from serialize_data_Inr [OF assms(2)] assms(1) obtain d h where
    d: "burst_to sj p = Inr d" and h: "dict_get d ''headers'' = Some h"
    and p': "p' = p\<lparr>data := (if \<not> truthy h then dict_del d ''headers'' else d)\<rparr>"
    by auto
  from burst_to_Inr [OF d] obtain tos vs vs' where
    tos: "py_iter (data_to p) = Inr tos"
    and vs: "map_result (message_version p) tos = Inr vs"
    and vs': "(if merge_metadata p \<noteq> [] then map_result (version_headers sj p) vs else Inr vs) = Inr vs'"
    and dd: "d = dict_set (dict_del (data p) ''to'') ''messageVersions'' (PList vs')"
    by blast
  have to: "dict_get (data p') ''to'' = None"
    by (simp add: p' dd dict_get_set dict_get_del)
  have mv: "dict_get (data p') ''messageVersions'' = Some (PList vs')"
    by (simp add: p' dd dict_get_set dict_get_del)
  have entry: "\<exists>em r.
           py_getitem (tos ! i) ''email'' = Inr em \<and> py_dict_get (merge_data p) em = Inr r
           \<and> py_getitem (vs' ! i) ''to'' = Inr (PList [tos ! i])
           \<and> py_getitem (vs' ! i) ''params'' = Inr (case r of None \<Rightarrow> PNone | Some x \<Rightarrow> x)
           \<and> (merge_metadata p = [] \<or> py_dict_get (merge_metadata p) em = Inr None \<longrightarrow>
                vs' ! i = PDict [(''to'', PList [tos ! i]),
                                 (''params'', (case r of None \<Rightarrow> PNone | Some x \<Rightarrow> x))])"
    if i: "i < length tos" for i
  proof -
    from burst_entry [OF vs vs' i] obtain em r where
      em: "py_getitem (tos ! i) ''email'' = Inr em" and r: "py_dict_get (merge_data p) em = Inr r"
      and c: "merge_metadata p = [] \<and> vs' ! i = PDict (version_base (tos ! i) r)
              \<or> merge_metadata p \<noteq> [] \<and>
                 (\<exists>rr. py_dict_get (merge_metadata p) em = Inr rr \<and>
                   (rr = None \<and> vs' ! i = PDict (version_base (tos ! i) r)
                    \<or> (\<exists>rm s. rr = Some rm \<and> sj (PDict (dict_update (metadata p) rm)) = Inr s
                         \<and> vs' ! i = PDict (version_base (tos ! i) r
                              @ [(''headers'', PDict [(''X-Mailin-custom'', PStr s)])]))))"
      by blast
    have base: "PDict (version_base (tos ! i) r)
                  = PDict [(''to'', PList [tos ! i]),
                           (''params'', (case r of None \<Rightarrow> PNone | Some x \<Rightarrow> x))]"
      by (simp add: version_base_def)
    from c consider
        (plain) "vs' ! i = PDict (version_base (tos ! i) r)"
      | (hdr) rm s where "py_dict_get (merge_metadata p) em = Inr (Some rm)" "merge_metadata p \<noteq> []"
          "vs' ! i = PDict (version_base (tos ! i) r @ [(''headers'', PDict [(''X-Mailin-custom'', PStr s)])])"
      by blast
    then show ?thesis
    proof cases
      case plain
      then show ?thesis using em r base by (simp add: dict_get_def)
    next
      case hdr
      then show ?thesis using em r by (simp add: version_base_items del: py_getitem.simps)
    qed
  qed
  have len: "length vs' = length tos" by (rule burst_length [OF vs vs'])
  show ?thesis using tos to mv len entry by blast
qed

theorem serialize_data_batch_witness:
  "is_batch sample_batch
   \<and> serialize_data sample_sj sample_batch = Inr (sample_batch\<lparr>data := sample_sent\<rparr>, ''{...}'')
   \<and> (\<exists>tos mvs. py_iter (data_to sample_batch) = Inr tos
     \<and> dict_get (data (sample_batch\<lparr>data := sample_sent\<rparr>)) ''to'' = None
     \<and> dict_get (data (sample_batch\<lparr>data := sample_sent\<rparr>)) ''messageVersions'' = Some (PList mvs)
     \<and> length mvs = length tos
     \<and> (\<forall>i < length tos. \<exists>em r.
           py_getitem (tos ! i) ''email'' = Inr em \<and> py_dict_get (merge_data sample_batch) em = Inr r
           \<and> py_getitem (mvs ! i) ''to'' = Inr (PList [tos ! i])
           \<and> py_getitem (mvs ! i) ''params'' = Inr (case r of None \<Rightarrow> PNone | Some x \<Rightarrow> x)
           \<and> (merge_metadata sample_batch = [] \<or> py_dict_get (merge_metadata sample_batch) em = Inr None \<longrightarrow>
                mvs ! i = PDict [(''to'', PList [tos ! i]),
                                 (''params'', (case r of None \<Rightarrow> PNone | Some x \<Rightarrow> x))])))"
proof -
  have 1: "is_batch sample_batch" by (simp add: sample_batch_def init_payload_def)
  from serialize_data_batch [OF 1 sample_batch_sent] 1 sample_batch_sent
  show ?thesis by blast
qed

text \<open>
  Claim C6. Whenever \<open>serialize_data\<close> returns on a batch payload with non-empty
  \<open>merge_metadata\<close>: the entry of \<open>messageVersions\<close> for a recipient whose email is a key
  of \<open>merge_metadata\<close> has "headers" equal to \<open>{"X-Mailin-custom": s}\<close>, where \<open>s\<close> is the
  JSON serialization of a mapping in which every key of the recipient's merge_metadata
  entry has the value that entry gives it, and every other key has the value it has in
  the global metadata; the entry for any other recipient has no "headers" key. The
  top-level \<open>data["headers"]\<close> is left as it was (and removed only when empty), so it
  applies to the entries without headers of their own.
\<close>

theorem serialize_data_merge_metadata:
  assumes "is_batch p" and "merge_metadata p \<noteq> []" and "serialize_data sj p = Inr (p', out)"
  shows "\<exists>tos mvs. py_iter (data_to p) = Inr tos
     \<and> dict_get (data p') ''messageVersions'' = Some (PList mvs)
     \<and> length mvs = length tos
     \<and> (\<forall>i < length tos. \<exists>em r.
           py_getitem (tos ! i) ''email'' = Inr em \<and> py_dict_get (merge_metadata p) em = Inr r
           \<and> (case r of
                None \<Rightarrow> py_getitem (mvs ! i) ''headers'' = Inl KeyError
              | Some rm \<Rightarrow> (\<exists>merged s.
                     (\<forall>k. dict_get merged k
                            = (case dict_get (rev rm) k of
                                 None \<Rightarrow> dict_get (metadata p) k
                               | Some v \<Rightarrow> Some v))
                   \<and> sj (PDict merged) = Inr s
                   \<and> py_getitem (mvs ! i) ''headers'' = Inr (PDict [(''X-Mailin-custom'', PStr s)]))))
     \<and> (\<exists>h. dict_get (data p) ''headers'' = Some h
           \<and> dict_get (data p') ''headers'' = (if truthy h then Some h else None))"
proof -
  from serialize_data_Inr [OF assms(3)] assms(1) obtain d h where
    d: "burst_to sj p = Inr d" and h: "dict_get d ''headers'' = Some h"
    and p': "p' = p\<lparr>data := (if \<not> truthy h then dict_del d ''headers'' else d)\<rparr>"
    by auto
  from burst_to_Inr [OF d] obtain tos vs vs' where
    tos: "py_iter (data_to p) = Inr tos"
    and vs: "map_result (message_version p) tos = Inr vs"
    and vs': "(if merge_metadata p \<noteq> [] then map_result (version_headers sj p) vs else Inr vs) = Inr vs'"
    and dd: "d = dict_set (dict_del (data p) ''to'') ''messageVersions'' (PList vs')"
    by blast
  have mv: "dict_get (data p') ''messageVersions'' = Some (PList vs')"
    by (simp add: p' dd dict_get_set dict_get_del)
  have h0: "dict_get (data p) ''headers'' = Some h"
    using h by (simp add: dd dict_get_set dict_get_del)
  have h1: "dict_get (data p') ''headers'' = (if truthy h then Some h else None)"
    using h by (simp add: p' dict_get_del)
  have entry: "\<exists>em r.
           py_getitem (tos ! i) ''email'' = Inr em \<and> py_dict_get (merge_metadata p) em = Inr r
           \<and> (case r of
                None \<Rightarrow> py_getitem (vs' ! i) ''headers'' = Inl KeyError
              | Some rm \<Rightarrow> (\<exists>merged s.
                     (\<forall>k. dict_get merged k
                            = (case dict_get (rev rm) k of
                                 None \<Rightarrow> dict_get (metadata p) k
                               | Some v \<Rightarrow> Some v))
                   \<and> sj (PDict merged) = Inr s
                   \<and> py_getitem (vs' ! i) ''headers'' = Inr (PDict [(''X-Mailin-custom'', PStr s)])))"
    if i: "i < length tos" for i
  proof -
    from burst_entry [OF vs vs' i] assms(2) obtain em r rr where
      em: "py_getitem (tos ! i) ''email'' = Inr em"
      and rr: "py_dict_get (merge_metadata p) em = Inr rr"
      and c: "rr = None \<and> vs' ! i = PDict (version_base (tos ! i) r)
                \<or> (\<exists>rm s. rr = Some rm \<and> sj (PDict (dict_update (metadata p) rm)) = Inr s
                     \<and> vs' ! i = PDict (version_base (tos ! i) r
                          @ [(''headers'', PDict [(''X-Mailin-custom'', PStr s)])]))"
      by blast
    from c consider
        (plain) "rr = None" "vs' ! i = PDict (version_base (tos ! i) r)"
      | (hdr) rm s where "rr = Some rm" "sj (PDict (dict_update (metadata p) rm)) = Inr s"
          "vs' ! i = PDict (version_base (tos ! i) r @ [(''headers'', PDict [(''X-Mailin-custom'', PStr s)])])"
      by blast
    then show ?thesis
    proof cases
      case plain
      then show ?thesis using em rr by (simp add: version_base_items del: py_getitem.simps)
    next
      case hdr
      have "\<exists>merged s.
              (\<forall>k. dict_get merged k
                     = (case dict_get (rev rm) k of
                          None \<Rightarrow> dict_get (metadata p) k
                        | Some v \<Rightarrow> Some v))
            \<and> sj (PDict merged) = Inr s
            \<and> py_getitem (vs' ! i) ''headers'' = Inr (PDict [(''X-Mailin-custom'', PStr s)])"
        using hdr(2,3) dict_update_overrides [of "metadata p" rm]
        by (intro exI [of _ "dict_update (metadata p) rm"] exI [of _ s])
           (simp add: version_base_items del: py_getitem.simps)
      then show ?thesis using em rr hdr(1) by simp
    qed
  qed
  have len: "length vs' = length tos" by (rule burst_length [OF vs vs'])
  show ?thesis using tos mv len entry h0 h1 by blast
qed

theorem serialize_data_merge_metadata_witness:
  "is_batch sample_batch_md \<and> merge_metadata sample_batch_md \<noteq> []
   \<and> serialize_data sample_sj_md sample_batch_md
       = Inr (sample_batch_md\<lparr>data := sample_sent_md\<rparr>, ''{...}'')
   \<and> (\<exists>tos mvs. py_iter (data_to sample_batch_md) = Inr tos
     \<and> dict_get (data (sample_batch_md\<lparr>data := sample_sent_md\<rparr>)) ''messageVersions'' = Some (PList mvs)
     \<and> length mvs = length tos
     \<and> (\<forall>i < length tos. \<exists>em r.
           py_getitem (tos ! i) ''email'' = Inr em \<and> py_dict_get (merge_metadata sample_batch_md) em = Inr r
           \<and> (case r of
                None \<Rightarrow> py_getitem (mvs ! i) ''headers'' = Inl KeyError
              | Some rm \<Rightarrow> (\<exists>merged s.
                     (\<forall>k. dict_get merged k
                            = (case dict_get (rev rm) k of
                                 None \<Rightarrow> dict_get (metadata sample_batch_md) k
                               | Some v \<Rightarrow> Some v))
                   \<and> sample_sj_md (PDict merged) = Inr s
                   \<and> py_getitem (mvs ! i) ''headers'' = Inr (PDict [(''X-Mailin-custom'', PStr s)]))))
     \<and> (\<exists>h. dict_get (data sample_batch_md) ''headers'' = Some h
           \<and> dict_get (data (sample_batch_md\<lparr>data := sample_sent_md\<rparr>)) ''headers'' = (if truthy h then Some h else None)))"
proof -
  have 1: "is_batch sample_batch_md" by (simp add: sample_batch_md_def init_payload_def)
  have 2: "merge_metadata sample_batch_md \<noteq> []" by (simp add: sample_batch_md_def init_payload_def)
  from serialize_data_merge_metadata [OF 1 2 sample_batch_md_sent] 1 2 sample_batch_md_sent
  show ?thesis by blast
qed

end
